theory Spec2Isabelle
  imports Complex_Main "HOL-Library.AList"
begin

section \<open>JavaScript values\<close>

text \<open>
  The values that reach the front end are the results of \<^verbatim>\<open>JSON.parse\<close> and the
  arguments the controls pass to \<^verbatim>\<open>publishCommand\<close>: trees of objects, arrays and
  primitives, without sharing. A finite number is the rational value of a binary64 number;
  the operations that produce a number round their exact result to binary64 (section
  Numbers); negative zero is not told apart from zero. An object lists each of its
  properties once, in enumeration order. An array carries its elements and the named
  properties that were assigned to it afterwards.
\<close>

datatype jsnum = Fin rat | NaN | PosInf | NegInf

datatype jsval =
    Undefined
  | Null
  | Bool bool
  | Num jsnum
  | Str string
  | Arr "jsval list" "(string \<times> jsval) list"
  | Obj "(string \<times> jsval) list"

datatype exn = TypeError | SyntaxError | Thrown jsval

text \<open>\<^verbatim>\<open>!!v\<close>: the falsy values are undefined, null, false, 0, NaN and the empty string.\<close>

fun truthy :: "jsval \<Rightarrow> bool" where
  "truthy Undefined = False"
| "truthy Null = False"
| "truthy (Bool b) = b"
| "truthy (Num (Fin x)) = (x \<noteq> 0)"
| "truthy (Num NaN) = False"
| "truthy (Num PosInf) = True"
| "truthy (Num NegInf) = True"
| "truthy (Str s) = (s \<noteq> [])"
| "truthy (Arr xs ps) = True"
| "truthy (Obj ps) = True"

text \<open>\<^verbatim>\<open>a || b\<close>\<close>

definition js_or :: "jsval \<Rightarrow> jsval \<Rightarrow> jsval" where
  "js_or a b = (if truthy a then a else b)"

text \<open>\<^verbatim>\<open>v != null\<close>\<close>

definition not_nullish :: "jsval \<Rightarrow> bool" where
  "not_nullish v = (v \<noteq> Undefined \<and> v \<noteq> Null)"

text \<open>
  \<^verbatim>\<open>v.k\<close> for the property names this program reads (none of them is an index, \<^verbatim>\<open>length\<close>
  or a name found on a built-in prototype): reading from undefined or null raises a
  TypeError, a primitive has no such property.
\<close>

fun get_prop :: "jsval \<Rightarrow> string \<Rightarrow> exn + jsval" where
  "get_prop Undefined k = Inl TypeError"
| "get_prop Null k = Inl TypeError"
| "get_prop (Obj ps) k = Inr (case map_of ps k of None \<Rightarrow> Undefined | Some v \<Rightarrow> v)"
| "get_prop (Arr xs ps) k = Inr (case map_of ps k of None \<Rightarrow> Undefined | Some v \<Rightarrow> v)"
| "get_prop v k = Inr Undefined"

text \<open>
  \<^verbatim>\<open>v.k = x\<close> in strict code (a class body is strict): an existing property keeps its
  place, a new one is added last; assigning to a property of a primitive, of undefined or
  of null raises a TypeError.
\<close>

fun set_prop :: "jsval \<Rightarrow> string \<Rightarrow> jsval \<Rightarrow> exn + jsval" where
  "set_prop (Obj ps) k x = Inr (Obj (AList.update k x ps))"
| "set_prop (Arr xs ps) k x = Inr (Arr xs (AList.update k x ps))"
| "set_prop v k x = Inl TypeError"

section \<open>Numbers\<close>

subsection \<open>Rounding to binary64\<close>

text \<open>The number of digits of a positive integer in base \<open>b\<close>.\<close>

function width :: "int \<Rightarrow> int \<Rightarrow> nat" where
  "width b n = (if n \<le> 0 \<or> b \<le> 1 then 0 else Suc (width b (n div b)))"
  by pat_completeness auto
termination
  by (relation "measure (\<lambda>(b, n). nat n)") (auto simp: zdiv_mono2 intro!: int_div_less_self)

declare width.simps [simp del]

text \<open>
  For a positive \<open>y\<close>, the integer \<open>e\<close> such that \<open>y\<close> is at least \<open>b\<close> to the power \<open>e\<close>
  and less than \<open>b\<close> to the power \<open>e + 1\<close>.
\<close>

definition magnitude :: "int \<Rightarrow> rat \<Rightarrow> int" where
  "magnitude b y =
     (if 1 \<le> y then int (width b \<lfloor>y\<rfloor>) - 1 else - int (width b (\<lceil>1 / y\<rceil> - 1)))"

text \<open>\<open>b\<close> to the power \<open>k\<close>, for an integer \<open>k\<close>.\<close>

definition scale :: "int \<Rightarrow> int \<Rightarrow> rat" where
  "scale b k = (if 0 \<le> k then of_int (b ^ nat k) else 1 / of_int (b ^ nat (- k)))"

text \<open>The nearest integer, the even one of two that are equally near.\<close>

definition round_half_even :: "rat \<Rightarrow> int" where
  "round_half_even t =
     (let f = \<lfloor>t\<rfloor>; r = t - of_int f
      in if r < 1 / 2 then f else if 1 / 2 < r then f + 1 else if even f then f else f + 1)"

text \<open>
  The Number value of a real: the nearest binary64 number, with a significand of 53 bits
  (fewer for the subnormal numbers), ties going to the even significand; what rounds to
  2 to the power 1024 or beyond is an infinity.
\<close>

definition binary64 :: "rat \<Rightarrow> jsnum" where
  "binary64 y =
     (if y = 0 then Fin 0
      else
        (let a = \<bar>y\<bar>;
             e = max (magnitude 2 a) (- 1022);
             q = scale 2 (e - 52);
             m = round_half_even (a / q)
         in if 1024 \<le> e \<or> e = 1023 \<and> 2 ^ 53 \<le> m then (if y < 0 then NegInf else PosInf)
            else Fin (if y < 0 then - (of_int m * q) else of_int m * q)))"

subsection \<open>The decimal rendering of a number\<close>

fun digits :: "nat \<Rightarrow> int \<Rightarrow> string" where
  "digits 0 n = []"
| "digits (Suc k) n = digits k (n div 10) @ [char_of (48 + n mod 10)]"

definition decimal :: "int \<Rightarrow> string" where
  "decimal n = (if n \<le> 0 then ''0'' else digits (width 10 n) n)"

text \<open>
  \<^verbatim>\<open>Number::toString\<close> looks for the decimal with the fewest digits whose Number value
  is the number, and among those with that many digits for the one nearest to the number
  (the even one of two equally near). With \<open>k\<close> digits the candidates are the two multiples
  of the unit of the \<open>k\<close>-th digit on either side of the number.
\<close>

definition candidate :: "rat \<Rightarrow> int \<Rightarrow> nat \<Rightarrow> int option" where
  "candidate a e10 k =
     (let unit = scale 10 (e10 + 1 - int k);
          lo = \<lfloor>a / unit\<rfloor>;
          hi = lo + 1;
          ok_lo = (binary64 (of_int lo * unit) = Fin a);
          ok_hi = (binary64 (of_int hi * unit) = Fin a);
          d_lo = a - of_int lo * unit;
          d_hi = of_int hi * unit - a
      in if ok_lo \<and> ok_hi
         then Some (if d_lo < d_hi then lo else if d_hi < d_lo then hi
                    else if even lo then lo else hi)
         else if ok_lo then Some lo
         else if ok_hi then Some hi
         else None)"

text \<open>
  The search, from \<open>k\<close> digits upwards, for as many rounds as the count allows; 17 digits
  tell any two binary64 numbers apart, so on a binary64 number a search of 17 rounds from
  one digit finds a candidate.
\<close>

fun shortest :: "nat \<Rightarrow> rat \<Rightarrow> int \<Rightarrow> nat \<Rightarrow> nat \<times> int" where
  "shortest 0 a e10 k = (k, \<lfloor>a / scale 10 (e10 + 1 - int k)\<rfloor>)"
| "shortest (Suc fuel) a e10 k =
     (case candidate a e10 k of
        Some s \<Rightarrow> (k, s)
      | None \<Rightarrow> shortest fuel a e10 (Suc k))"

definition strip_zeros :: "string \<Rightarrow> string" where
  "strip_zeros ds = rev (dropWhile (\<lambda>c. c = CHR ''0'') (rev ds))"

text \<open>
  The string of a positive number: with the digits \<open>ds\<close> and the decimal point after the
  \<open>n\<close>-th of them, plain notation when \<open>-6 < n \<le> 21\<close> and exponent notation otherwise.
\<close>

definition positive_string :: "rat \<Rightarrow> string" where
  "positive_string a =
     (let e10 = magnitude 10 a;
          (k, s) = shortest 17 a e10 1;
          all = decimal s;
          n = e10 + 1 + (int (length all) - int k);
          ds = strip_zeros all;
          len = int (length ds)
      in if len \<le> n \<and> n \<le> 21 then ds @ replicate (nat (n - len)) CHR ''0''
         else if 0 < n \<and> n \<le> 21 then take (nat n) ds @ ''.'' @ drop (nat n) ds
         else if - 6 < n \<and> n \<le> 0 then ''0.'' @ replicate (nat (- n)) CHR ''0'' @ ds
         else take 1 ds @ (if len = 1 then [] else ''.'' @ drop 1 ds) @ ''e''
              @ (if 0 \<le> n - 1 then ''+'' else ''-'') @ decimal \<bar>n - 1\<bar>)"

text \<open>\<^verbatim>\<open>String(x)\<close> for a finite number, in characters.\<close>

definition number_string :: "rat \<Rightarrow> string" where
  "number_string x =
     (if x = 0 then ''0'' else if x < 0 then ''-'' @ positive_string (- x) else positive_string x)"

text \<open>
  \<^verbatim>\<open>x.toFixed(f)\<close> for a finite number, in characters: the integer nearest to
  \<open>x\<close> times 10 to the power \<open>f\<close> (the larger of two equally near, in absolute value)
  with a decimal point before its last \<open>f\<close> digits; from \<^verbatim>\<open>1e21\<close> on,
  \<^verbatim>\<open>String(x)\<close>.
\<close>

definition fixed_string :: "nat \<Rightarrow> rat \<Rightarrow> string" where
  "fixed_string f x =
     (if 10 ^ 21 \<le> \<bar>x\<bar> then number_string x
      else
        (let m = decimal \<lfloor>\<bar>x\<bar> * 10 ^ f + 1 / 2\<rfloor>;
             ds = replicate (Suc f - length m) CHR ''0'' @ m;
             body = (if f = 0 then ds
                     else take (length ds - f) ds @ ''.'' @ drop (length ds - f) ds)
         in if x < 0 then ''-'' @ body else body))"

section \<open>Strings that contain rendered numbers\<close>

text \<open>
  The decimal rendering of a number (\<^verbatim>\<open>String(x)\<close>, \<^verbatim>\<open>x.toFixed(n)\<close>) is kept as a
  piece of its own, so a string is a list of pieces; \<open>spell\<close> gives its characters. In a
  normalised text no literal piece is empty and no two literal pieces are adjacent.
  Characters are bytes; the program's own strings are ASCII.
\<close>

datatype piece = Lit string | NumStr rat | NumFixed nat rat

type_synonym rendered = "piece list"

fun piece_string :: "piece \<Rightarrow> string" where
  "piece_string (Lit s) = s"
| "piece_string (NumStr x) = number_string x"
| "piece_string (NumFixed f x) = fixed_string f x"

definition spell :: "rendered \<Rightarrow> string" where
  "spell t = concat (map piece_string t)"

fun norm :: "rendered \<Rightarrow> rendered" where
  "norm [] = []"
| "norm (Lit a # ps) =
     (case norm ps of
        Lit b # qs \<Rightarrow> Lit (a @ b) # qs
      | qs \<Rightarrow> (if a = [] then qs else Lit a # qs))"
| "norm (p # ps) = p # norm ps"

text \<open>\<^verbatim>\<open>String(x)\<close> for a number.\<close>

fun num_text :: "jsnum \<Rightarrow> rendered" where
  "num_text (Fin x) = [NumStr x]"
| "num_text NaN = [Lit ''NaN'']"
| "num_text PosInf = [Lit ''Infinity'']"
| "num_text NegInf = [Lit ''-Infinity'']"

text \<open>\<^verbatim>\<open>x.toFixed(n)\<close>\<close>

fun toFixed :: "jsnum \<Rightarrow> nat \<Rightarrow> rendered" where
  "toFixed (Fin x) n = [NumFixed n x]"
| "toFixed x n = num_text x"

fun join_text :: "rendered list \<Rightarrow> rendered" where
  "join_text [] = []"
| "join_text [t] = t"
| "join_text (t # ts) = t @ Lit '','' # join_text ts"

subsection \<open>JSON.stringify\<close>

definition hex_digit :: "nat \<Rightarrow> char" where
  "hex_digit n = (''0123456789abcdef'') ! (n mod 16)"

text \<open>The escapes of \<^verbatim>\<open>QuoteJSONString\<close>.\<close>

definition escape_char :: "char \<Rightarrow> string" where
  "escape_char c =
     (if c = CHR 0x22 then [CHR 0x5C, CHR 0x22]
      else if c = CHR 0x5C then [CHR 0x5C, CHR 0x5C]
      else if c = CHR 0x08 then [CHR 0x5C, CHR ''b'']
      else if c = CHR 0x0C then [CHR 0x5C, CHR ''f'']
      else if c = CHR 0x0A then [CHR 0x5C, CHR ''n'']
      else if c = CHR 0x0D then [CHR 0x5C, CHR ''r'']
      else if c = CHR 0x09 then [CHR 0x5C, CHR ''t'']
      else if (of_char c :: nat) < 32
        then [CHR 0x5C, CHR ''u'', CHR ''0'', CHR ''0'',
              hex_digit (of_char c div 16), hex_digit (of_char c)]
      else [c])"

definition quote :: "string \<Rightarrow> string" where
  "quote s = CHR 0x22 # concat (map escape_char s) @ [CHR 0x22]"

text \<open>
  The serialisation of a value in an array or as the value of a property that is kept:
  undefined and the non-finite numbers become \<^verbatim>\<open>null\<close>; a property whose value is
  undefined is left out of its object; the named properties of an array are not serialised.
  The properties of an object are listed in its enumeration order.
\<close>

fun serialize :: "jsval \<Rightarrow> rendered" where
  "serialize Undefined = [Lit ''null'']"
| "serialize Null = [Lit ''null'']"
| "serialize (Bool b) = [Lit (if b then ''true'' else ''false'')]"
| "serialize (Num (Fin x)) = [NumStr x]"
| "serialize (Num x) = [Lit ''null'']"
| "serialize (Str s) = [Lit (quote s)]"
| "serialize (Arr xs ps) = Lit ''['' # join_text (map serialize xs) @ [Lit '']'']"
| "serialize (Obj ps) =
     Lit ''{'' #
     join_text (map (\<lambda>p. Lit (quote (fst p)) # Lit '':'' # serialize (snd p))
                  (filter (\<lambda>p. snd p \<noteq> Undefined) ps))
     @ [Lit ''}'']"

text \<open>\<^verbatim>\<open>JSON.stringify(v)\<close> for a value that is not undefined.\<close>

definition JSON_stringify :: "jsval \<Rightarrow> rendered" where
  "JSON_stringify v = norm (serialize v)"

section \<open>Conversions\<close>

text \<open>\<^verbatim>\<open>typeof v\<close>\<close>

fun typeof :: "jsval \<Rightarrow> string" where
  "typeof Undefined = ''undefined''"
| "typeof Null = ''object''"
| "typeof (Bool b) = ''boolean''"
| "typeof (Num x) = ''number''"
| "typeof (Str s) = ''string''"
| "typeof (Arr xs ps) = ''object''"
| "typeof (Obj ps) = ''object''"

subsection \<open>Reading a number from a string\<close>

definition is_ws :: "char \<Rightarrow> bool" where
  "is_ws c = (c \<in> set [CHR 0x09, CHR 0x0A, CHR 0x0B, CHR 0x0C, CHR 0x0D, CHR 0x20])"

definition is_digit :: "char \<Rightarrow> bool" where
  "is_digit c = (48 \<le> (of_char c :: nat) \<and> (of_char c :: nat) \<le> 57)"

definition digits_value :: "string \<Rightarrow> int" where
  "digits_value ds = foldl (\<lambda>n c. 10 * n + (of_char c - 48)) 0 ds"

text \<open>A leading sign, and the rest of the string.\<close>

fun signed :: "string \<Rightarrow> bool \<times> string" where
  "signed [] = (False, [])"
| "signed (c # r) =
     (if c = CHR ''-'' then (True, r) else if c = CHR ''+'' then (False, r) else (False, c # r))"

text \<open>
  \<^verbatim>\<open>parseInt(s, 10)\<close> on a string: leading white space is skipped, a sign is read, then
  the longest run of decimal digits; without a digit the result is NaN. What follows the
  digits is ignored. The result is the Number value of the integer read (the standard lets
  an implementation replace the digits after the twentieth by zeros first; the engines in
  use do not).
\<close>

definition parseInt_string :: "string \<Rightarrow> jsnum" where
  "parseInt_string s =
     (let (neg, u) = signed (dropWhile is_ws s);
          ds = takeWhile is_digit u
      in if ds = [] then NaN
         else binary64 (if neg then - of_int (digits_value ds) else of_int (digits_value ds)))"

text \<open>The value of a digit in a radix up to 16, if it is one.\<close>

definition radix_digit :: "nat \<Rightarrow> char \<Rightarrow> nat option" where
  "radix_digit radix c =
     (let n = (of_char c :: nat);
          v = (if 48 \<le> n \<and> n \<le> 57 then n - 48
               else if 97 \<le> n \<and> n \<le> 102 then n - 87
               else if 65 \<le> n \<and> n \<le> 70 then n - 55
               else 16)
      in if v < radix then Some v else None)"

definition parse_radix :: "nat \<Rightarrow> string \<Rightarrow> jsnum" where
  "parse_radix radix s =
     (if s \<noteq> [] \<and> list_all (\<lambda>c. radix_digit radix c \<noteq> None) s
      then binary64
             (of_int (foldl (\<lambda>n c. int radix * n
                                    + int (case radix_digit radix c of Some v \<Rightarrow> v | None \<Rightarrow> 0))
                        0 s))
      else NaN)"

text \<open>The exponent part of a decimal literal, which must reach the end of the string.\<close>

definition exponent :: "string \<Rightarrow> int option" where
  "exponent r =
     (case r of
        [] \<Rightarrow> Some 0
      | c # t \<Rightarrow>
          (if c = CHR ''e'' \<or> c = CHR ''E''
           then (let (neg, ds) = signed t
                 in if ds \<noteq> [] \<and> list_all is_digit ds
                    then Some (if neg then - digits_value ds else digits_value ds)
                    else None)
           else None))"

text \<open>
  An unsigned decimal literal, with \<^verbatim>\<open>Infinity\<close>: digits, a decimal point and
  digits, an exponent; its value is rounded to binary64.
\<close>

definition unsigned_decimal :: "string \<Rightarrow> jsnum" where
  "unsigned_decimal s =
     (if s = ''Infinity'' then PosInf
      else
        (let ip = takeWhile is_digit s;
             r1 = dropWhile is_digit s;
             (fp, r2) = (case r1 of
                           [] \<Rightarrow> ([], [])
                         | c # r \<Rightarrow>
                             (if c = CHR ''.''
                              then (takeWhile is_digit r, dropWhile is_digit r)
                              else ([], r1)))
         in if ip = [] \<and> fp = [] then NaN
            else (case exponent r2 of
                    None \<Rightarrow> NaN
                  | Some e \<Rightarrow>
                      binary64 (of_int (digits_value (ip @ fp)) * scale 10 (e - int (length fp))))))"

fun negated :: "jsnum \<Rightarrow> jsnum" where
  "negated (Fin x) = Fin (- x)"
| "negated NaN = NaN"
| "negated PosInf = NegInf"
| "negated NegInf = PosInf"

definition trim :: "string \<Rightarrow> string" where
  "trim s = rev (dropWhile is_ws (rev (dropWhile is_ws s)))"

text \<open>
  \<^verbatim>\<open>Number(s)\<close> on a string: white space around the literal is dropped; the empty
  string is 0; a literal is a signed decimal literal (with \<^verbatim>\<open>Infinity\<close>) or an unsigned
  one in radix 16, 8 or 2; anything else is NaN.
\<close>

definition StringToNumber :: "string \<Rightarrow> jsnum" where
  "StringToNumber s =
     (let t = trim s in
      if t = [] then Fin 0
      else
        (case t of
           c # d # r \<Rightarrow>
             (if c = CHR ''0'' \<and> (d = CHR ''x'' \<or> d = CHR ''X'') then parse_radix 16 r
              else if c = CHR ''0'' \<and> (d = CHR ''o'' \<or> d = CHR ''O'') then parse_radix 8 r
              else if c = CHR ''0'' \<and> (d = CHR ''b'' \<or> d = CHR ''B'') then parse_radix 2 r
              else (let (neg, u) = signed t
                    in if neg then negated (unsigned_decimal u) else unsigned_decimal u))
         | _ \<Rightarrow> unsigned_decimal t))"

subsection \<open>ToString and ToNumber\<close>

text \<open>
  \<^verbatim>\<open>String(v)\<close>: an array is its elements joined by commas, with undefined and null
  elements empty. An object is \<^verbatim>\<open>[object Object]\<close> through the method it inherits;
  when it has a member of its own named \<^verbatim>\<open>toString\<close> (never a function in these
  values) the conversion raises a TypeError.
\<close>

fun join_results :: "(exn + rendered) list \<Rightarrow> exn + rendered list" where
  "join_results [] = Inr []"
| "join_results (Inl x # rs) = Inl x"
| "join_results (Inr t # rs) = (case join_results rs of Inl x \<Rightarrow> Inl x | Inr ts \<Rightarrow> Inr (t # ts))"

fun ToString_raw :: "jsval \<Rightarrow> exn + rendered" where
  "ToString_raw Undefined = Inr [Lit ''undefined'']"
| "ToString_raw Null = Inr [Lit ''null'']"
| "ToString_raw (Bool b) = Inr [Lit (if b then ''true'' else ''false'')]"
| "ToString_raw (Num x) = Inr (num_text x)"
| "ToString_raw (Str s) = Inr [Lit s]"
| "ToString_raw (Arr xs ps) =
     (case join_results
             (map (\<lambda>x. if x = Undefined \<or> x = Null then Inr [] else ToString_raw x) xs) of
        Inl x \<Rightarrow> Inl x
      | Inr ts \<Rightarrow> Inr (join_text ts))"
| "ToString_raw (Obj ps) =
     (if map_of ps ''toString'' = None then Inr [Lit ''[object Object]''] else Inl TypeError)"

definition ToString :: "jsval \<Rightarrow> exn + rendered" where
  "ToString v = (case ToString_raw v of Inl x \<Rightarrow> Inl x | Inr t \<Rightarrow> Inr (norm t))"

text \<open>\<^verbatim>\<open>Number(v)\<close>: an array or an object is converted to its string first.\<close>

definition ToNumber :: "jsval \<Rightarrow> exn + jsnum" where
  "ToNumber v =
     (case v of
        Undefined \<Rightarrow> Inr NaN
      | Null \<Rightarrow> Inr (Fin 0)
      | Bool b \<Rightarrow> Inr (Fin (if b then 1 else 0))
      | Num x \<Rightarrow> Inr x
      | Str s \<Rightarrow> Inr (StringToNumber s)
      | _ \<Rightarrow> (case ToString v of Inl x \<Rightarrow> Inl x | Inr t \<Rightarrow> Inr (StringToNumber (spell t))))"

text \<open>\<^verbatim>\<open>isNaN(v)\<close>\<close>

definition isNaN :: "jsval \<Rightarrow> exn + bool" where
  "isNaN v = (case ToNumber v of Inl x \<Rightarrow> Inl x | Inr n \<Rightarrow> Inr (n = NaN))"

text \<open>\<^verbatim>\<open>parseInt(v, 10)\<close>: the value is converted to its string, which is then read.\<close>

definition parseInt :: "jsval \<Rightarrow> exn + jsnum" where
  "parseInt v =
     (case ToString v of Inl x \<Rightarrow> Inl x | Inr t \<Rightarrow> Inr (parseInt_string (spell t)))"

text \<open>
  \<^verbatim>\<open>x * 255\<close>: the product is rounded to binary64. \<^verbatim>\<open>Math.round(x)\<close>: the nearest
  integer, halves going up, which is a binary64 number whenever \<open>x\<close> is.
\<close>

fun times255 :: "jsnum \<Rightarrow> jsnum" where
  "times255 (Fin x) = binary64 (x * 255)"
| "times255 x = x"

fun Math_round :: "jsnum \<Rightarrow> jsnum" where
  "Math_round (Fin x) = Fin (of_int \<lfloor>x + 1 / 2\<rfloor>)"
| "Math_round x = x"

text \<open>\<^verbatim>\<open>s.toLowerCase()\<close> on ASCII.\<close>

definition toLowerCase :: "string \<Rightarrow> string" where
  "toLowerCase s =
     map (\<lambda>c. if 65 \<le> (of_char c :: nat) \<and> (of_char c :: nat) \<le> 90
               then char_of ((of_char c :: nat) + 32) else c) s"

section \<open>Configuration (config.js)\<close>

record topics =
  sensors :: string
  alarmState :: string
  personCount :: string
  webCommand :: string

record config =
  mqtt_host :: string
  mqtt_port :: nat
  topics :: topics

text \<open>\<^verbatim>\<open>window.location.hostname\<close> is the parameter.\<close>

definition CONFIG :: "string \<Rightarrow> config" where
  "CONFIG hostname =
     \<lparr>mqtt_host = (if hostname \<noteq> [] then hostname else ''localhost''),
      mqtt_port = 9001,
      topics = \<lparr>sensors = ''iot/sensors'',
                alarmState = ''iot/alarm/state'',
                personCount = ''iot/home/person_count'',
                webCommand = ''iot/web/command''\<rparr>\<rparr>"

section \<open>The MQTT client (class SmartHomeMQTT)\<close>

text \<open>
  A listener is a JavaScript function of one argument. It runs on the state of the rest of
  the page (the world \<open>'w\<close>: the dashboard, the document) and on the object it is handed,
  which it may change in place; it returns or throws, and what it changed before throwing
  stays changed. Listeners do not call back into the client.
\<close>

datatype 'w outcome = Outcome (thrown_by: "exn option") (payload_after: jsval) (world_after: 'w)

type_synonym 'w listener = "jsval \<Rightarrow> 'w \<Rightarrow> 'w outcome"

text \<open>\<open>Call e i d\<close>: listener number \<open>i\<close> of the list \<open>e\<close> was invoked with \<open>d\<close>.\<close>

datatype call = Call string nat jsval

text \<open>A call of \<^verbatim>\<open>console.log\<close>, \<^verbatim>\<open>console.warn\<close> or \<^verbatim>\<open>console.error\<close>, with its first argument.\<close>

datatype console = Log string | Warn string | Error string

record 'w run =
  thrown :: "exn option"
  world :: 'w
  calls :: "call list"
  printed :: "console list"

text \<open>The transport client of the mqtt library, as the calls made on it.\<close>

record transport =
  subscribed :: "string list"
  published :: "(string \<times> rendered) list"

record 'w callbacks =
  onConnect :: "'w listener list"
  onDisconnect :: "'w listener list"
  onSensorData :: "'w listener list"
  onAlarmState :: "'w listener list"
  onPersonCount :: "'w listener list"

record 'w SmartHomeMQTT =
  config :: config
  client :: "transport option"
  connected :: bool
  callbacks :: "'w callbacks"

definition new_SmartHomeMQTT :: "config \<Rightarrow> 'w SmartHomeMQTT" where
  "new_SmartHomeMQTT cfg =
     \<lparr>config = cfg, client = None, connected = False,
      callbacks = \<lparr>onConnect = [], onDisconnect = [], onSensorData = [],
                   onAlarmState = [], onPersonCount = []\<rparr>\<rparr>"

text \<open>
  \<^verbatim>\<open>this._callbacks[event]\<close>: one of the five lists, a member inherited from
  \<^verbatim>\<open>Object.prototype\<close> (a function or an object, so truthy), or undefined.
\<close>

datatype 'w slot = Listeners "'w listener list" | Inherited | Missing

definition object_prototype_names :: "string list" where
  "object_prototype_names =
     [''constructor'', ''hasOwnProperty'', ''isPrototypeOf'', ''propertyIsEnumerable'',
      ''toLocaleString'', ''toString'', ''valueOf'', ''__proto__'',
      ''__defineGetter__'', ''__defineSetter__'', ''__lookupGetter__'', ''__lookupSetter__'']"

definition slot :: "'w callbacks \<Rightarrow> string \<Rightarrow> 'w slot" where
  "slot cbs event =
     (if event = ''onConnect'' then Listeners (onConnect cbs)
      else if event = ''onDisconnect'' then Listeners (onDisconnect cbs)
      else if event = ''onSensorData'' then Listeners (onSensorData cbs)
      else if event = ''onAlarmState'' then Listeners (onAlarmState cbs)
      else if event = ''onPersonCount'' then Listeners (onPersonCount cbs)
      else if event \<in> set object_prototype_names then Inherited
      else Missing)"

definition push :: "'w callbacks \<Rightarrow> string \<Rightarrow> 'w listener \<Rightarrow> 'w callbacks" where
  "push cbs event cb =
     (if event = ''onConnect'' then cbs\<lparr>onConnect := onConnect cbs @ [cb]\<rparr>
      else if event = ''onDisconnect'' then cbs\<lparr>onDisconnect := onDisconnect cbs @ [cb]\<rparr>
      else if event = ''onSensorData'' then cbs\<lparr>onSensorData := onSensorData cbs @ [cb]\<rparr>
      else if event = ''onAlarmState'' then cbs\<lparr>onAlarmState := onAlarmState cbs @ [cb]\<rparr>
      else if event = ''onPersonCount'' then cbs\<lparr>onPersonCount := onPersonCount cbs @ [cb]\<rparr>
      else cbs)"

text \<open>
  \<^verbatim>\<open>on(event, callback)\<close>: appends to the list of a known event, does nothing for an
  unknown name; for an inherited member \<^verbatim>\<open>.push\<close> is undefined and the call raises.
\<close>

definition on :: "string \<Rightarrow> 'w listener \<Rightarrow> 'w SmartHomeMQTT \<Rightarrow> exn + 'w SmartHomeMQTT" where
  "on event callback this =
     (case slot (callbacks this) event of
        Listeners l \<Rightarrow> Inr (this\<lparr>callbacks := push (callbacks this) event callback\<rparr>)
      | Inherited \<Rightarrow> Inl TypeError
      | Missing \<Rightarrow> Inr this)"

text \<open>A run that made no call and printed nothing: one that returns, one that throws.\<close>

definition completed :: "'w \<Rightarrow> 'w run" where
  "completed w = \<lparr>thrown = None, world = w, calls = [], printed = []\<rparr>"

definition raised :: "exn \<Rightarrow> 'w \<Rightarrow> 'w run" where
  "raised x w = \<lparr>thrown = Some x, world = w, calls = [], printed = []\<rparr>"

text \<open>
  \<^verbatim>\<open>list.forEach((cb) => cb(data))\<close>: the listeners run in the order of the list, each
  on the same object; the first one that throws ends the loop and the exception leaves it.
  The result is the object as the last listener left it, and the run: the exception if
  any, the world, and the invocations made, numbered from \<open>i\<close>.
\<close>

fun forEach_cb :: "string \<Rightarrow> nat \<Rightarrow> 'w listener list \<Rightarrow> jsval \<Rightarrow> 'w \<Rightarrow> jsval \<times> 'w run" where
  "forEach_cb e i [] d w = (d, completed w)"
| "forEach_cb e i (cb # cbs) d w =
     (case cb d w of
        Outcome None d' w' \<Rightarrow>
          (let (d'', r) = forEach_cb e (Suc i) cbs d' w'
           in (d'', r\<lparr>calls := Call e i d # calls r\<rparr>))
      | Outcome (Some x) d' w' \<Rightarrow>
          (d', (raised x w')\<lparr>calls := [Call e i d]\<rparr>))"

text \<open>
  \<^verbatim>\<open>_fire(event, data)\<close>: \<^verbatim>\<open>(this._callbacks[event] || []).forEach((cb) => cb(data))\<close>
\<close>

definition fire :: "'w SmartHomeMQTT \<Rightarrow> string \<Rightarrow> jsval \<Rightarrow> 'w \<Rightarrow> 'w run" where
  "fire this event data w =
     (case slot (callbacks this) event of
        Listeners l \<Rightarrow> snd (forEach_cb event 0 l data w)
      | Inherited \<Rightarrow> raised TypeError w
      | Missing \<Rightarrow> snd (forEach_cb event 0 [] data w))"

text \<open>Statements in sequence: an exception in the first part skips the second.\<close>

definition and_then :: "'w run \<Rightarrow> ('w \<Rightarrow> 'w run) \<Rightarrow> 'w run" where
  "and_then r f =
     (case thrown r of
        Some x \<Rightarrow> r
      | None \<Rightarrow>
          (let r' = f (world r)
           in r'\<lparr>calls := calls r @ calls r', printed := printed r @ printed r'\<rparr>))"

text \<open>
  The body of the loop over the items of a sensor message:
  \<^verbatim>\<open>item.device = item.device || device; this._fire("onSensorData", item);\<close>
\<close>

definition resolve_device :: "jsval \<Rightarrow> jsval \<Rightarrow> exn + jsval" where
  "resolve_device item device =
     (case get_prop item ''device'' of
        Inl x \<Rightarrow> Inl x
      | Inr own \<Rightarrow> set_prop item ''device'' (js_or own device))"

fun forEach_item :: "'w SmartHomeMQTT \<Rightarrow> jsval \<Rightarrow> jsval list \<Rightarrow> 'w \<Rightarrow> 'w run" where
  "forEach_item this device [] w = completed w"
| "forEach_item this device (item # rest) w =
     (case resolve_device item device of
        Inl x \<Rightarrow> raised x w
      | Inr item' \<Rightarrow>
          and_then (fire this ''onSensorData'' item' w) (forEach_item this device rest))"

text \<open>
  \<^verbatim>\<open>items.forEach\<close>: only an array has a callable \<^verbatim>\<open>forEach\<close>; the loop visits
  its elements in index order.
\<close>

fun elements :: "jsval \<Rightarrow> exn + jsval list" where
  "elements (Arr xs ps) = Inr xs"
| "elements v = Inl TypeError"

text \<open>\<^verbatim>\<open>_handleMessage(topic, data)\<close>\<close>

definition handleMessage :: "'w SmartHomeMQTT \<Rightarrow> string \<Rightarrow> jsval \<Rightarrow> 'w \<Rightarrow> 'w run" where
  "handleMessage this topic data w =
     (let t = topics (config this) in
      if topic = sensors t then
        (case get_prop data ''items'' of
           Inl x \<Rightarrow> raised x w
         | Inr its \<Rightarrow>
             (let items = js_or its (Arr [data] []) in
              case get_prop data ''device'' of
                Inl x \<Rightarrow> raised x w
              | Inr device \<Rightarrow>
                  (case elements items of
                     Inl x \<Rightarrow> raised x w
                   | Inr xs \<Rightarrow> forEach_item this device xs w)))
      else if topic = alarmState t then fire this ''onAlarmState'' data w
      else if topic = personCount t then fire this ''onPersonCount'' data w
      else completed w)"

text \<open>
  The first argument of the \<^verbatim>\<open>console.log\<close> that ends \<^verbatim>\<open>publishCommand\<close>, the
  template \<^verbatim>\<open>`[MQTT] Command -> ${target}: ${command}`\<close>: \<open>target\<close> is converted to a
  string, then \<open>command\<close>, and either conversion may raise.
\<close>

definition command_line :: "jsval \<Rightarrow> jsval \<Rightarrow> exn + string" where
  "command_line target command =
     (case ToString target of
        Inl x \<Rightarrow> Inl x
      | Inr t \<Rightarrow>
          (case ToString command of
             Inl x \<Rightarrow> Inl x
           | Inr k \<Rightarrow> Inr (''[MQTT] Command -> '' @ spell t @ '': '' @ spell k)))"

text \<open>
  \<^verbatim>\<open>publishCommand(target, command, params)\<close>: the new state of the client, the
  exception if one leaves the call, and what was written to the console. The message is
  published before the line for the console is built, so it has been published when
  building the line raises.
\<close>

definition publishCommand ::
  "jsval \<Rightarrow> jsval \<Rightarrow> jsval \<Rightarrow> 'w SmartHomeMQTT
     \<Rightarrow> 'w SmartHomeMQTT \<times> exn option \<times> console list" where
  "publishCommand target command params this =
     (case client this of
        None \<Rightarrow> (this, None, [Warn ''[MQTT] Not connected, cannot send command''])
      | Some c \<Rightarrow>
          (if \<not> connected this
           then (this, None, [Warn ''[MQTT] Not connected, cannot send command''])
           else
             (let payload = JSON_stringify
                    (Obj [(''target'', target), (''command'', command),
                          (''params'', js_or params (Obj []))]);
                  this1 = this\<lparr>client := Some (c\<lparr>published :=
                            published c @ [(webCommand (topics (config this)), payload)]\<rparr>)\<rparr>
              in case command_line target command of
                   Inl x \<Rightarrow> (this1, Some x, [])
                 | Inr line \<Rightarrow> (this1, None, [Log line]))))"

subsection \<open>connect() and the handlers it installs on the transport\<close>

text \<open>\<^verbatim>\<open>connect()\<close> opens a new transport client; the handlers below are installed on it.\<close>

definition connect :: "'w SmartHomeMQTT \<Rightarrow> 'w SmartHomeMQTT \<times> console list" where
  "connect this =
     (this\<lparr>client := Some \<lparr>subscribed = [], published = []\<rparr>\<rparr>,
      [Log ''[MQTT] Connecting to''])"

definition subscribe :: "string \<Rightarrow> transport \<Rightarrow> transport" where
  "subscribe topic c = c\<lparr>subscribed := subscribed c @ [topic]\<rparr>"

text \<open>The handler of the transport's \<^verbatim>\<open>connect\<close> event.\<close>

definition on_connect :: "'w SmartHomeMQTT \<Rightarrow> 'w \<Rightarrow> 'w SmartHomeMQTT \<times> 'w run" where
  "on_connect this w =
     (let this1 = this\<lparr>connected := True\<rparr> in
      case client this1 of
        None \<Rightarrow> (this1, (raised TypeError w)\<lparr>printed := [Log ''[MQTT] Connected'']\<rparr>)
      | Some c \<Rightarrow>
          (let t = topics (config this1);
               c' = subscribe (personCount t) (subscribe (alarmState t) (subscribe (sensors t) c));
               this2 = this1\<lparr>client := Some c'\<rparr>;
               r = fire this2 ''onConnect'' Undefined w
           in (this2, r\<lparr>printed := Log ''[MQTT] Connected'' # printed r\<rparr>)))"

text \<open>The handler of the transport's \<^verbatim>\<open>close\<close> event.\<close>

definition on_close :: "'w SmartHomeMQTT \<Rightarrow> 'w \<Rightarrow> 'w SmartHomeMQTT \<times> 'w run" where
  "on_close this w =
     (let this1 = this\<lparr>connected := False\<rparr>;
          r = fire this1 ''onDisconnect'' Undefined w
      in (this1, r\<lparr>printed := Log ''[MQTT] Disconnected'' # printed r\<rparr>))"

text \<open>The handler of the transport's \<^verbatim>\<open>error\<close> event.\<close>

definition on_error :: "'w SmartHomeMQTT \<Rightarrow> 'w \<Rightarrow> 'w SmartHomeMQTT \<times> 'w run" where
  "on_error this w = (this, (completed w)\<lparr>printed := [Error ''[MQTT] Error:'']\<rparr>)"

text \<open>
  The handler of the transport's \<^verbatim>\<open>message\<close> event. \<open>parse\<close> stands for
  \<^verbatim>\<open>JSON.parse(payload.toString())\<close>, with \<open>None\<close> for the SyntaxError it raises on
  text that is not JSON. The \<^verbatim>\<open>try\<close> block encloses the call of \<^verbatim>\<open>_handleMessage\<close>,
  so whatever is thrown there is caught as well.
\<close>

definition on_message ::
  "(string \<Rightarrow> jsval option) \<Rightarrow> string \<Rightarrow> string \<Rightarrow> 'w SmartHomeMQTT \<Rightarrow> 'w
     \<Rightarrow> 'w SmartHomeMQTT \<times> 'w run" where
  "on_message parse topic payload this w =
     (case parse payload of
        None \<Rightarrow> (this, (completed w)\<lparr>printed := [Warn ''[MQTT] Parse error:'']\<rparr>)
      | Some data \<Rightarrow>
          (let r = handleMessage this topic data w in
           case thrown r of
             None \<Rightarrow> (this, r)
           | Some x \<Rightarrow>
               (this, r\<lparr>thrown := None,
                        printed := printed r @ [Warn ''[MQTT] Parse error:'']\<rparr>)))"

text \<open>The messages of one connection, handled one after the other.\<close>

fun on_messages ::
  "(string \<Rightarrow> jsval option) \<Rightarrow> (string \<times> string) list \<Rightarrow> 'w SmartHomeMQTT \<Rightarrow> 'w
     \<Rightarrow> 'w SmartHomeMQTT \<times> 'w run" where
  "on_messages parse [] this w = (this, completed w)"
| "on_messages parse ((topic, payload) # ms) this w =
     (let (this1, r1) = on_message parse topic payload this w;
          (this2, r2) = on_messages parse ms this1 (world r1)
      in (this2, r2\<lparr>calls := calls r1 @ calls r2, printed := printed r1 @ printed r2\<rparr>))"

section \<open>The page\<close>

text \<open>
  Of an element the dashboard touches: its text, its class attribute as the list of its
  tokens, the string last assigned to \<^verbatim>\<open>style.backgroundColor\<close>, and the class tokens
  of the first \<^verbatim>\<open>i\<close> element inside it, if there is one
  (\<^verbatim>\<open>querySelector("i")\<close>). The document gives the element of an id; how the
  elements that have an id are nested in one another is not represented.
\<close>

record element =
  textContent :: rendered
  className :: "string list"
  style_backgroundColor :: rendered
  icon_className :: "string list option"

type_synonym dom = "(string \<times> element) list"

definition getElementById :: "dom \<Rightarrow> string \<Rightarrow> element option" where
  "getElementById doc ident = map_of doc ident"

text \<open>\<^verbatim>\<open>const el = document.getElementById(id); if (el) { ... el ... }\<close>\<close>

definition modify :: "string \<Rightarrow> (element \<Rightarrow> element) \<Rightarrow> dom \<Rightarrow> dom" where
  "modify ident f doc =
     (case getElementById doc ident of
        None \<Rightarrow> doc
      | Some el \<Rightarrow> AList.update ident (f el) doc)"

text \<open>\<^verbatim>\<open>el.textContent = t\<close> replaces whatever the element contained.\<close>

definition set_textContent :: "rendered \<Rightarrow> element \<Rightarrow> element" where
  "set_textContent t el = el\<lparr>textContent := t, icon_className := None\<rparr>"

text \<open>The string a value becomes when it is assigned to \<^verbatim>\<open>textContent\<close>.\<close>

definition dom_string :: "jsval \<Rightarrow> exn + rendered" where
  "dom_string v = (if v = Undefined \<or> v = Null then Inr [] else ToString v)"

text \<open>
  \<^verbatim>\<open>classList\<close>: the tokens of the class attribute as an ordered set. \<^verbatim>\<open>add\<close> and
  \<^verbatim>\<open>remove\<close> write the set back to the attribute; \<^verbatim>\<open>toggle(t, force)\<close> writes it
  back only when it adds or removes the token, and leaves the attribute as it is otherwise.
\<close>

definition token_set :: "string list \<Rightarrow> string list" where
  "token_set ts = rev (remdups (rev ts))"

definition classList_add :: "string \<Rightarrow> string list \<Rightarrow> string list" where
  "classList_add t ts = (let s = token_set ts in if t \<in> set s then s else s @ [t])"

definition classList_remove :: "string \<Rightarrow> string list \<Rightarrow> string list" where
  "classList_remove t ts = removeAll t (token_set ts)"

definition classList_toggle :: "string \<Rightarrow> bool \<Rightarrow> string list \<Rightarrow> string list" where
  "classList_toggle t force ts =
     (if t \<in> set ts then (if force then ts else classList_remove t ts)
      else (if force then classList_add t ts else ts))"

section \<open>The dashboard (class Dashboard)\<close>

text \<open>
  The world of the dashboard's listeners: the field \<^verbatim>\<open>lastUpdate\<close> of the dashboard (a
  date, in milliseconds, or null, under each key), the document, and the clock. A handler
  reads the clock at one instant. Dates are whole numbers of milliseconds far below 2 to the
  power 52 in absolute value, as those of \<^verbatim>\<open>new Date()\<close> are: there the difference of
  two dates is exact, and its quotient by 1000, rounded to binary64, has the integer part
  of the exact quotient, which is what \<open>div\<close> gives.
\<close>

record page =
  lastUpdate :: "(rendered \<times> int option) list"
  document :: dom
  now :: int

definition new_Dashboard :: "(rendered \<times> int option) list" where
  "new_Dashboard = [([Lit ''PI1''], None), ([Lit ''PI2''], None), ([Lit ''PI3''], None)]"

text \<open>\<^verbatim>\<open>v.k\<close> where \<open>v\<close> is known not to be undefined or null.\<close>

definition member :: "jsval \<Rightarrow> string \<Rightarrow> jsval" where
  "member v k = (case get_prop v k of Inr x \<Rightarrow> x | Inl e \<Rightarrow> Undefined)"

text \<open>\<^verbatim>\<open>value === 1 || value === true\<close>\<close>

definition active :: "jsval \<Rightarrow> bool" where
  "active v = (v = Num (Fin 1) \<or> v = Bool True)"

text \<open>\<^verbatim>\<open>_setText(id, text)\<close> with a string.\<close>

definition setText :: "string \<Rightarrow> rendered \<Rightarrow> dom \<Rightarrow> dom" where
  "setText ident t doc = modify ident (set_textContent t) doc"

text \<open>
  \<^verbatim>\<open>_setText(id, text)\<close> with a value that is not known to be a string: it is converted
  when it is assigned, so only if the element exists.
\<close>

definition setText_value :: "string \<Rightarrow> jsval \<Rightarrow> dom \<Rightarrow> exn option \<times> dom" where
  "setText_value ident v doc =
     (case getElementById doc ident of
        None \<Rightarrow> (None, doc)
      | Some el \<Rightarrow>
          (case dom_string v of
             Inl x \<Rightarrow> (Some x, doc)
           | Inr t \<Rightarrow> (None, AList.update ident (set_textContent t el) doc)))"

text \<open>\<^verbatim>\<open>_timeAgo(date)\<close> when the clock shows \<open>clock\<close>.\<close>

definition timeAgo :: "int \<Rightarrow> int option \<Rightarrow> rendered" where
  "timeAgo clock date =
     (case date of
        None \<Rightarrow> [Lit ''No data'']
      | Some t \<Rightarrow>
          (let s = (clock - t) div 1000 in
           if s < 5 then [Lit ''Just now'']
           else if s < 60 then [NumStr (of_int s), Lit ''s ago'']
           else [NumStr (of_int (s div 60)), Lit ''m ago'']))"

text \<open>\<^verbatim>\<open>_updatePiStatus(device, online)\<close>\<close>

definition updatePiStatus :: "string \<Rightarrow> bool \<Rightarrow> dom \<Rightarrow> dom" where
  "updatePiStatus device online doc =
     modify (toLowerCase device @ ''-status'')
       (\<lambda>el. (set_textContent [Lit (if online then ''Online'' else ''Offline'')] el)
                \<lparr>className := [''badge'', ''mt-1'', if online then ''bg-success'' else ''bg-secondary'']\<rparr>)
       doc"

text \<open>\<^verbatim>\<open>_updateDHT(sensor, value)\<close>\<close>

definition updateDHT :: "string \<Rightarrow> jsval \<Rightarrow> dom \<Rightarrow> exn option \<times> dom" where
  "updateDHT sensor v doc =
     (let p = toLowerCase sensor in
      if typeof v = ''object'' \<and> v \<noteq> Null then
        (case (if not_nullish (member v ''temperature'')
               then (case ToNumber (member v ''temperature'') of
                       Inl x \<Rightarrow> Inl x
                     | Inr n \<Rightarrow> Inr (setText (p @ ''-temp'') (toFixed n 1) doc))
               else Inr doc) of
           Inl x \<Rightarrow> (Some x, doc)
         | Inr doc1 \<Rightarrow>
             (if not_nullish (member v ''humidity'')
              then (case ToNumber (member v ''humidity'') of
                      Inl x \<Rightarrow> (Some x, doc1)
                    | Inr n \<Rightarrow> (None, setText (p @ ''-hum'') (toFixed n 1) doc1))
              else (None, doc1)))
      else (None, doc))"

text \<open>\<^verbatim>\<open>_updateMotion(sensor, value)\<close>\<close>

definition updateMotion :: "string \<Rightarrow> jsval \<Rightarrow> dom \<Rightarrow> dom" where
  "updateMotion sensor v doc =
     (let ident = toLowerCase sensor;
          detected = active v;
          doc1 = modify (ident @ ''-state'')
                   (\<lambda>el. (set_textContent [Lit (if detected then ''MOTION'' else ''CLEAR'')] el)
                            \<lparr>className := [''badge'', ''mt-1'',
                                           if detected then ''bg-danger'' else ''bg-secondary'']\<rparr>)
                   doc
      in modify (''card-'' @ ident)
           (\<lambda>el. el\<lparr>className := classList_toggle ''sensor-active'' detected (className el)\<rparr>)
           doc1)"

text \<open>\<^verbatim>\<open>_updateDoor(sensor, value)\<close>\<close>

definition updateDoor :: "string \<Rightarrow> jsval \<Rightarrow> dom \<Rightarrow> dom" where
  "updateDoor sensor v doc =
     (let ident = toLowerCase sensor;
          isOpen = active v;
          doc1 = modify (ident @ ''-state'')
                   (\<lambda>el. (set_textContent [Lit (if isOpen then ''OPEN'' else ''CLOSED'')] el)
                            \<lparr>className := [''badge'', ''mt-1'',
                                           if isOpen then ''bg-danger'' else ''bg-success'']\<rparr>)
                   doc
      in modify (''card-'' @ ident)
           (\<lambda>el. case icon_className el of
                    None \<Rightarrow> el
                  | Some c \<Rightarrow>
                      el\<lparr>icon_className :=
                           Some [''bi'', if isOpen then ''bi-door-open'' else ''bi-door-closed'',
                                 ''fs-3'']\<rparr>)
           doc1)"

text \<open>\<^verbatim>\<open>_updateDistance(sensor, value)\<close>\<close>

definition updateDistance :: "string \<Rightarrow> jsval \<Rightarrow> dom \<Rightarrow> dom" where
  "updateDistance sensor v doc =
     (case v of
        Num n \<Rightarrow> setText (toLowerCase sensor @ ''-value'') (toFixed n 1) doc
      | _ \<Rightarrow> doc)"

text \<open>\<^verbatim>\<open>_updateOnOff(elementId, value)\<close>\<close>

definition updateOnOff :: "string \<Rightarrow> jsval \<Rightarrow> dom \<Rightarrow> dom" where
  "updateOnOff elementId v doc =
     modify elementId
       (\<lambda>el. (set_textContent [Lit (if active v then ''ON'' else ''OFF'')] el)
                \<lparr>className := [''badge'', ''mt-1'',
                               if active v then ''bg-success'' else ''bg-secondary'']\<rparr>)
       doc"

text \<open>
  One colour channel of \<^verbatim>\<open>_updateRGB\<close>: \<^verbatim>\<open>Math.round((value.k || 0) * 255)\<close>
\<close>

definition channel :: "jsval \<Rightarrow> string \<Rightarrow> exn + jsnum" where
  "channel v k =
     (case get_prop v k of
        Inl x \<Rightarrow> Inl x
      | Inr c \<Rightarrow>
          (case ToNumber (js_or c (Num (Fin 0))) of
             Inl x \<Rightarrow> Inl x
           | Inr n \<Rightarrow> Inr (Math_round (times255 n))))"

text \<open>The string \<^verbatim>\<open>`rgb(${r},${g},${b})`\<close>\<close>

definition rgb :: "jsnum \<Rightarrow> jsnum \<Rightarrow> jsnum \<Rightarrow> rendered" where
  "rgb r g b =
     norm ([Lit ''rgb(''] @ num_text r @ [Lit '',''] @ num_text g @ [Lit '',''] @ num_text b
           @ [Lit '')''])"

text \<open>\<^verbatim>\<open>_updateRGB(value)\<close>\<close>

definition updateRGB :: "jsval \<Rightarrow> dom \<Rightarrow> exn option \<times> dom" where
  "updateRGB v doc =
     (case getElementById doc ''rgb-preview'' of
        None \<Rightarrow> (None, doc)
      | Some preview \<Rightarrow>
          (if typeof v \<noteq> ''object'' then (None, doc)
           else
             (case channel v ''r'' of
                Inl x \<Rightarrow> (Some x, doc)
              | Inr r \<Rightarrow>
                  (case channel v ''g'' of
                     Inl x \<Rightarrow> (Some x, doc)
                   | Inr g \<Rightarrow>
                       (case channel v ''b'' of
                          Inl x \<Rightarrow> (Some x, doc)
                        | Inr b \<Rightarrow>
                            (None,
                             AList.update ''rgb-preview''
                               (preview\<lparr>style_backgroundColor := rgb r g b\<rparr>) doc))))))"

text \<open>\<^verbatim>\<open>Number(item.k).toFixed(2)\<close>\<close>

definition axis :: "jsval \<Rightarrow> string \<Rightarrow> exn + rendered" where
  "axis item k = (case ToNumber (member item k) of Inl x \<Rightarrow> Inl x | Inr n \<Rightarrow> Inr (toFixed n 2))"

text \<open>\<^verbatim>\<open>_updateGyroscope(item)\<close>\<close>

definition updateGyroscope :: "jsval \<Rightarrow> dom \<Rightarrow> exn option \<times> dom" where
  "updateGyroscope item doc =
     (case getElementById doc ''gsg-value'' of
        None \<Rightarrow> (None, doc)
      | Some el \<Rightarrow>
          (if not_nullish (member item ''ax'') then
             (case axis item ''ax'' of
                Inl x \<Rightarrow> (Some x, doc)
              | Inr tx \<Rightarrow>
                  (case axis item ''ay'' of
                     Inl x \<Rightarrow> (Some x, doc)
                   | Inr ty \<Rightarrow>
                       (case axis item ''az'' of
                          Inl x \<Rightarrow> (Some x, doc)
                        | Inr tz \<Rightarrow>
                            (None,
                             AList.update ''gsg-value''
                               (set_textContent
                                  (norm ([Lit ''x:''] @ tx @ [Lit ''  y:''] @ ty @ [Lit ''  z:''] @ tz))
                                  el)
                               doc))))
           else (None, doc)))"

text \<open>\<^verbatim>\<open>_updateTimer(item)\<close>\<close>

definition updateTimer :: "jsval \<Rightarrow> dom \<Rightarrow> exn option \<times> dom" where
  "updateTimer item doc =
     (case getElementById doc ''timer-display'' of
        None \<Rightarrow> (None, doc)
      | Some el \<Rightarrow>
          (let action = member item ''action'' in
           if action = Str ''show_time'' then
             (case dom_string (js_or (member item ''display'') (Str ''00:00'')) of
                Inl x \<Rightarrow> (Some x, doc)
              | Inr t \<Rightarrow>
                  (None,
                   AList.update ''timer-display''
                     ((set_textContent t el)
                        \<lparr>className := classList_remove ''timer-blink'' (className el)\<rparr>) doc))
           else if action = Str ''blink_start'' then
             (None,
              AList.update ''timer-display''
                ((set_textContent [Lit ''00:00''] el)
                   \<lparr>className := classList_add ''timer-blink'' (className el)\<rparr>) doc)
           else if action = Str ''blink_stop'' then
             (None,
              AList.update ''timer-display''
                ((set_textContent [Lit ''00:00''] el)
                   \<lparr>className := classList_remove ''timer-blink'' (className el)\<rparr>) doc)
           else (None, doc)))"

text \<open>
  The first part of \<^verbatim>\<open>updateSensor\<close>, \<^verbatim>\<open>if (device) { ... }\<close>: the date is stored
  under the device as a property key, then \<^verbatim>\<open>device.toLowerCase()\<close> is called, which
  only a string has.
\<close>

definition seen :: "jsval \<Rightarrow> page \<Rightarrow> exn option \<times> page" where
  "seen device pg =
     (if truthy device then
        (case ToString device of
           Inl x \<Rightarrow> (Some x, pg)
         | Inr key \<Rightarrow>
             (let pg1 = pg\<lparr>lastUpdate := AList.update key (Some (now pg)) (lastUpdate pg)\<rparr> in
              case device of
                Str s \<Rightarrow>
                  (None,
                   pg1\<lparr>document :=
                         updatePiStatus s True
                           (setText (toLowerCase s @ ''-last-update'')
                              (timeAgo (now pg) (Some (now pg))) (document pg1))\<rparr>)
              | _ \<Rightarrow> (Some TypeError, pg1)))
      else (None, pg))"

text \<open>The second part of \<^verbatim>\<open>updateSensor\<close>, \<^verbatim>\<open>switch (sensor) { ... }\<close>\<close>

definition dispatch :: "jsval \<Rightarrow> jsval \<Rightarrow> jsval \<Rightarrow> dom \<Rightarrow> exn option \<times> dom" where
  "dispatch sensor v item doc =
     (if sensor = Str ''DHT1'' \<or> sensor = Str ''DHT2'' \<or> sensor = Str ''DHT3''
        then (case sensor of Str s \<Rightarrow> updateDHT s v doc | _ \<Rightarrow> (None, doc))
      else if sensor = Str ''DPIR1'' \<or> sensor = Str ''DPIR2'' \<or> sensor = Str ''DPIR3''
        then (case sensor of Str s \<Rightarrow> (None, updateMotion s v doc) | _ \<Rightarrow> (None, doc))
      else if sensor = Str ''DS1'' \<or> sensor = Str ''DS2''
        then (case sensor of Str s \<Rightarrow> (None, updateDoor s v doc) | _ \<Rightarrow> (None, doc))
      else if sensor = Str ''DUS1'' \<or> sensor = Str ''DUS2''
        then (case sensor of Str s \<Rightarrow> (None, updateDistance s v doc) | _ \<Rightarrow> (None, doc))
      else if sensor = Str ''DL'' then (None, updateOnOff ''dl-state'' v doc)
      else if sensor = Str ''DB'' then (None, updateOnOff ''db-state'' v doc)
      else if sensor = Str ''BRGB'' then updateRGB v doc
      else if sensor = Str ''GSG'' then updateGyroscope item doc
      else if sensor = Str ''4SD'' then updateTimer item doc
      else (None, doc))"

text \<open>\<^verbatim>\<open>updateSensor(item)\<close>\<close>

definition updateSensor :: "jsval \<Rightarrow> page \<Rightarrow> exn option \<times> page" where
  "updateSensor item pg =
     (case get_prop item ''sensor'' of
        Inl x \<Rightarrow> (Some x, pg)
      | Inr sensor \<Rightarrow>
          (let device = member item ''device'';
               v = member item ''value''
           in case seen device pg of
                (Some x, pg1) \<Rightarrow> (Some x, pg1)
              | (None, pg1) \<Rightarrow>
                  (case dispatch sensor v item (document pg1) of
                     (t, doc) \<Rightarrow> (t, pg1\<lparr>document := doc\<rparr>))))"

text \<open>The local variable \<^verbatim>\<open>count\<close> of \<^verbatim>\<open>updatePersonCount(data)\<close>\<close>

definition count_of :: "jsval \<Rightarrow> exn + jsval" where
  "count_of data =
     (if typeof data = ''number'' then Inr data
      else if typeof data = ''object'' \<and> data \<noteq> Null \<and> not_nullish (member data ''count'')
        then Inr (member data ''count'')
      else (case parseInt data of Inl x \<Rightarrow> Inl x | Inr n \<Rightarrow> Inr (Num n)))"

text \<open>\<^verbatim>\<open>updatePersonCount(data)\<close>\<close>

definition updatePersonCount :: "jsval \<Rightarrow> dom \<Rightarrow> exn option \<times> dom" where
  "updatePersonCount data doc =
     (case count_of data of
        Inl x \<Rightarrow> (Some x, doc)
      | Inr count \<Rightarrow>
          (case isNaN count of
             Inl x \<Rightarrow> (Some x, doc)
           | Inr unknown \<Rightarrow>
               setText_value ''person-count'' (if unknown then Str ''?'' else count) doc))"



section \<open>The application (the listeners registered on DOMContentLoaded)\<close>

text \<open>\<^verbatim>\<open>mqttClient.on("onSensorData", (item) => dashboard.updateSensor(item))\<close>\<close>

definition sensor_listener :: "page listener" where
  "sensor_listener item pg = (case updateSensor item pg of (t, pg') \<Rightarrow> Outcome t item pg')"

text \<open>\<^verbatim>\<open>mqttClient.on("onPersonCount", (data) => dashboard.updatePersonCount(data))\<close>\<close>

definition person_listener :: "page listener" where
  "person_listener data pg =
     (case updatePersonCount data (document pg) of
        (t, doc) \<Rightarrow> Outcome t data (pg\<lparr>document := doc\<rparr>))"

section \<open>What the statements observe\<close>

text \<open>The subscriptions made so far on the transport client, none without a client.\<close>

definition subscriptions :: "'w SmartHomeMQTT \<Rightarrow> string list" where
  "subscriptions this = (case client this of None \<Rightarrow> [] | Some c \<Rightarrow> subscribed c)"

text \<open>The messages published so far on the transport client.\<close>

definition publications :: "'w SmartHomeMQTT \<Rightarrow> (string \<times> rendered) list" where
  "publications this = (case client this of None \<Rightarrow> [] | Some c \<Rightarrow> published c)"

fun call_index :: "call \<Rightarrow> nat" where
  "call_index (Call e i d) = i"

fun call_payload :: "call \<Rightarrow> jsval" where
  "call_payload (Call e i d) = d"

text \<open>An item of a batch on which a property can be set: an object or an array.\<close>

fun is_object :: "jsval \<Rightarrow> bool" where
  "is_object (Obj ps) = True"
| "is_object (Arr xs ps) = True"
| "is_object v = False"

text \<open>The item as the loop hands it to the fan-out, for an item on which the assignment succeeds.\<close>

definition resolved :: "jsval \<Rightarrow> jsval \<Rightarrow> jsval" where
  "resolved device item = (case resolve_device item device of Inr item' \<Rightarrow> item' | Inl x \<Rightarrow> item)"

text \<open>What the first listener of the list was invoked with, in the order of its invocations.\<close>

definition first_listener_payloads :: "'w run \<Rightarrow> jsval list" where
  "first_listener_payloads r = map call_payload (filter (\<lambda>c. call_index c = 0) (calls r))"

text \<open>
  The listeners of a list invoked one after the other with an object, each on the object
  and the world as the one before it left them, up to the first that throws: the exception
  if any and the world at the end, and what each listener that was invoked was handed.
\<close>

fun invoke_all :: "'w listener list \<Rightarrow> jsval \<Rightarrow> 'w \<Rightarrow> exn option \<times> 'w" where
  "invoke_all [] d w = (None, w)"
| "invoke_all (cb # cbs) d w =
     (case cb d w of
        Outcome None d' w' \<Rightarrow> invoke_all cbs d' w'
      | Outcome (Some x) d' w' \<Rightarrow> (Some x, w'))"

fun observed :: "'w listener list \<Rightarrow> jsval \<Rightarrow> 'w \<Rightarrow> jsval list" where
  "observed [] d w = []"
| "observed (cb # cbs) d w =
     d # (case cb d w of
            Outcome None d' w' \<Rightarrow> observed cbs d' w'
          | Outcome (Some x) d' w' \<Rightarrow> [])"

text \<open>
  Readings delivered to the listeners one after the other, up to the first on which a
  listener throws: the exception if any and the world at the end, and the readings that
  were delivered, the one on which a listener threw being the last.
\<close>

fun deliver :: "'w listener list \<Rightarrow> jsval list \<Rightarrow> 'w \<Rightarrow> exn option \<times> 'w" where
  "deliver cbs [] w = (None, w)"
| "deliver cbs (r # rs) w =
     (case invoke_all cbs r w of
        (None, w') \<Rightarrow> deliver cbs rs w'
      | (Some x, w') \<Rightarrow> (Some x, w'))"

fun delivered :: "'w listener list \<Rightarrow> jsval list \<Rightarrow> 'w \<Rightarrow> jsval list" where
  "delivered cbs [] w = []"
| "delivered cbs (r # rs) w =
     r # (case invoke_all cbs r w of
            (None, w') \<Rightarrow> delivered cbs rs w'
          | (Some x, w') \<Rightarrow> [])"

text \<open>A listener that returns and leaves the object it was handed as it was.\<close>

definition read_only :: "'w listener \<Rightarrow> bool" where
  "read_only cb = (\<forall>d w. thrown_by (cb d w) = None \<and> payload_after (cb d w) = d)"

text \<open>The sensor kinds that have a case in the \<^verbatim>\<open>switch\<close> of \<^verbatim>\<open>updateSensor\<close>.\<close>

definition sensor_kinds :: "string list" where
  "sensor_kinds =
     [''DHT1'', ''DHT2'', ''DHT3'', ''DPIR1'', ''DPIR2'', ''DPIR3'', ''DS1'', ''DS2'',
      ''DUS1'', ''DUS2'', ''DL'', ''DB'', ''BRGB'', ''GSG'', ''4SD'']"


section \<open>The sensor envelope as the specification describes it\<close>

text \<open>
  Following the specification's wire format: a well-formed sensor payload is an object with
  a non-empty string \<^verbatim>\<open>device\<close> and either no \<^verbatim>\<open>items\<close> (the flat form) or an array
  \<^verbatim>\<open>items\<close> of objects, each with no \<^verbatim>\<open>device\<close> of its own or a non-empty string.
\<close>

fun nonempty_string :: "jsval \<Rightarrow> bool" where
  "nonempty_string (Str s) = (s \<noteq> [])"
| "nonempty_string v = False"

definition has_device :: "jsval \<Rightarrow> bool" where
  "has_device v = (case get_prop v ''device'' of Inr d \<Rightarrow> nonempty_string d | Inl x \<Rightarrow> False)"

fun spec_well_formed_item :: "jsval \<Rightarrow> bool" where
  "spec_well_formed_item (Obj ps) =
     (case map_of ps ''device'' of None \<Rightarrow> True | Some v \<Rightarrow> nonempty_string v)"
| "spec_well_formed_item v = False"

fun item_list :: "jsval \<Rightarrow> jsval list option" where
  "item_list (Arr xs qs) = Some xs"
| "item_list v = None"

fun spec_well_formed :: "jsval \<Rightarrow> bool" where
  "spec_well_formed (Obj ps) =
     (case map_of ps ''device'' of
        None \<Rightarrow> False
      | Some v \<Rightarrow>
          nonempty_string v \<and>
          (case map_of ps ''items'' of
             None \<Rightarrow> True
           | Some its \<Rightarrow>
               (case item_list its of None \<Rightarrow> False | Some xs \<Rightarrow> list_all spec_well_formed_item xs)))"
| "spec_well_formed v = False"

text \<open>
  Following the specification: an item inherits the device of the envelope when its own is
  missing; without \<^verbatim>\<open>items\<close> the whole payload is the only item of the batch.
\<close>

definition spec_inherit :: "jsval \<Rightarrow> jsval \<Rightarrow> jsval" where
  "spec_inherit device item =
     (case item of
        Obj ps \<Rightarrow> (case map_of ps ''device'' of None \<Rightarrow> Obj (ps @ [(''device'', device)]) | Some own \<Rightarrow> item)
      | _ \<Rightarrow> item)"

definition spec_readings :: "jsval \<Rightarrow> jsval list" where
  "spec_readings data =
     (case member data ''items'' of
        Undefined \<Rightarrow> [data]
      | Arr xs qs \<Rightarrow> map (spec_inherit (member data ''device'')) xs
      | _ \<Rightarrow> [])"

section \<open>Listeners used in the examples\<close>

text \<open>
  The world of these listeners is the list of the names of the listeners that ran.
  \<^verbatim>\<open>(d) => { ran.push(name); }\<close> and \<^verbatim>\<open>(d) => { ran.push(name); throw name; }\<close>
\<close>

definition noting :: "string \<Rightarrow> string list listener" where
  "noting name d w = Outcome None d (w @ [name])"

definition failing :: "string \<Rightarrow> string list listener" where
  "failing name d w = Outcome (Some (Thrown (Str name))) d (w @ [name])"

text \<open>\<^verbatim>\<open>(d) => { ran.push(name); d.device = name; }\<close> in strict code.\<close>

definition relabelling :: "string \<Rightarrow> string list listener" where
  "relabelling name d w =
     (case set_prop d ''device'' (Str name) of
        Inr d' \<Rightarrow> Outcome None d' (w @ [name])
      | Inl x \<Rightarrow> Outcome (Some x) d (w @ [name]))"

text \<open>
  A new client on which \<^verbatim>\<open>on(event, cb)\<close> was called for each of the listeners \<open>cbs\<close>,
  in this order, \<open>event\<close> being one of the five events.
\<close>

definition listening :: "string \<Rightarrow> 'w listener list \<Rightarrow> 'w SmartHomeMQTT" where
  "listening event cbs =
     (new_SmartHomeMQTT (CONFIG []))
       \<lparr>callbacks := foldl (\<lambda>c cb. push c event cb) (callbacks (new_SmartHomeMQTT (CONFIG []))) cbs\<rparr>"

text \<open>The same client once \<^verbatim>\<open>connect()\<close> was called and the transport reported the connection.\<close>

definition connected_client :: "unit SmartHomeMQTT" where
  "connected_client = fst (on_connect (fst (connect (new_SmartHomeMQTT (CONFIG [])))) ())"

text \<open>
  \<^verbatim>\<open>JSON.parse\<close> on the two payloads of the examples: \<^verbatim>\<open>7\<close> is the number 7,
  and \<^verbatim>\<open>{oops\<close> is not JSON.
\<close>

definition example_parse :: "string \<Rightarrow> jsval option" where
  "example_parse s = (if s = ''7'' then Some (Num (Fin 7)) else None)"

section \<open>Pages and messages used in the examples\<close>

text \<open>An element without text, classes or style, and a document of six such elements.\<close>

definition blank :: element where
  "blank = \<lparr>textContent = [], className = [], style_backgroundColor = [], icon_className = None\<rparr>"

definition example_doc :: dom where
  "example_doc =
     [(''pi1-status'', blank), (''pi1-last-update'', blank), (''pi4-status'', blank),
      (''dl-state'', blank), (''rgb-preview'', blank), (''person-count'', blank)]"

definition example_page :: "int \<Rightarrow> page" where
  "example_page t = \<lparr>lastUpdate = new_Dashboard, document = example_doc, now = t\<rparr>"

text \<open>A batch of two items, the second with a device of its own.\<close>

definition sample_batch :: jsval where
  "sample_batch =
     Obj [(''device'', Str ''PI1''),
          (''items'', Arr [Obj [(''sensor'', Str ''DL''), (''value'', Num (Fin 1))],
                           Obj [(''sensor'', Str ''DB''), (''value'', Num (Fin 0)),
                                (''device'', Str ''PI2'')]] [])]"

text \<open>The text of this batch on the wire, and \<^verbatim>\<open>JSON.parse\<close> on it.\<close>

definition sample_text :: string where
  \<open>sample_text =
     ''{"device":"PI1","items":[{"sensor":"DL","value":1},{"sensor":"DB","value":0,"device":"PI2"}]}''\<close>

definition sample_parse :: "string \<Rightarrow> jsval option" where
  "sample_parse s = (if s = sample_text then Some sample_batch else None)"

text \<open>A batch whose first item has a sensor kind the dashboard does not know.\<close>

definition zzz_batch :: jsval where
  "zzz_batch =
     Obj [(''device'', Str ''PI1''),
          (''items'', Arr [Obj [(''sensor'', Str ''ZZZ''), (''value'', Num (Fin 1))],
                           Obj [(''sensor'', Str ''DL''), (''value'', Num (Fin 1))]] [])]"

text \<open>A batch whose first item is a colour reading without a colour.\<close>

definition null_colour_batch :: jsval where
  "null_colour_batch =
     Obj [(''device'', Str ''PI1''),
          (''items'', Arr [Obj [(''sensor'', Str ''BRGB''), (''value'', Null)],
                           Obj [(''sensor'', Str ''DL''), (''value'', Num (Fin 1))]] [])]"

text \<open>A payload in the flat form, and a batch of one item whose device is the empty string.\<close>

definition flat_payload :: jsval where
  "flat_payload = Obj [(''device'', Str ''PI2''), (''sensor'', Str ''DB''), (''value'', Num (Fin 0))]"

definition unnamed_batch :: jsval where
  "unnamed_batch =
     Obj [(''device'', Str ''PI1''),
          (''items'', Arr [Obj [(''sensor'', Str ''DL''), (''device'', Str [])]] [])]"


section \<open>Properties of the fan-out\<close>

lemma forEach_cb_calls_index:
  "map call_index (calls (snd (forEach_cb e i cbs d w))) = [i..<i + length (calls (snd (forEach_cb e i cbs d w)))]"
proof (induction cbs arbitrary: i d w)
  case Nil
  then show ?case by (simp add: completed_def)
next
  case (Cons cb cbs)
  show ?case
  proof (cases "cb d w")
    case (Outcome t d' w')
    show ?thesis
    proof (cases t)
      case None
      with Outcome Cons.IH [of "Suc i" d' w'] show ?thesis
        by (simp add: split_beta upt_rec)
    next
      case (Some x)
      with Outcome show ?thesis
        by (simp add: raised_def)
    qed
  qed
qed

lemma forEach_cb_all:
  "thrown (snd (forEach_cb e i cbs d w)) = None \<Longrightarrow> length (calls (snd (forEach_cb e i cbs d w))) = length cbs"
  by (induction cbs arbitrary: i d w) (auto simp: completed_def raised_def split_beta split: outcome.splits option.splits)

lemma forEach_cb_append:
  "forEach_cb e i (pre @ post) d w =
     (let (d1, r1) = forEach_cb e i pre d w in
      case thrown r1 of
        Some x \<Rightarrow> (d1, r1)
      | None \<Rightarrow> (let (d2, r2) = forEach_cb e (i + length pre) post d1 (world r1)
                 in (d2, r2\<lparr>calls := calls r1 @ calls r2\<rparr>)))"
  by (induction pre arbitrary: i d w) (auto simp: completed_def raised_def split_beta split: outcome.splits option.splits)

lemma forEach_cb_stops:
  assumes pre: "forEach_cb e i pre d w = (d1, r1)" "thrown r1 = None"
    and cb: "cb d1 (world r1) = Outcome (Some x) d2 w2"
  shows "snd (forEach_cb e i (pre @ cb # post) d w) =
           \<lparr>thrown = Some x, world = w2, calls = calls r1 @ [Call e (i + length pre) d1], printed = []\<rparr>"
  using assms by (simp add: forEach_cb_append raised_def)

text \<open>
  C1 (as amended). The fan-out does not isolate its listeners. When the listeners
  registered for an event are \<open>cbs\<close>: if the fan-out ends without an exception, every
  listener was invoked once, in registration order; if the listeners \<open>pre\<close> return and the
  next listener \<open>cb\<close> throws, the fan-out ends there with that exception, which leaves
  \<^verbatim>\<open>_fire\<close>, and no listener registered after \<open>cb\<close> is invoked.
\<close>

theorem fire_stops_at_first_throw:
  assumes reg: "slot (callbacks this) e = Listeners cbs"
  shows "(thrown (fire this e d w) = None \<longrightarrow>
            map call_index (calls (fire this e d w)) = [0..<length cbs])
       \<and> (\<forall>pre cb post d1 r1 x d2 w2.
            cbs = pre @ cb # post \<longrightarrow> forEach_cb e 0 pre d w = (d1, r1) \<longrightarrow> thrown r1 = None \<longrightarrow>
            cb d1 (world r1) = Outcome (Some x) d2 w2 \<longrightarrow>
              fire this e d w =
                \<lparr>thrown = Some x, world = w2,
                 calls = calls r1 @ [Call e (length pre) d1], printed = []\<rparr>
              \<and> map call_index (calls (fire this e d w)) = [0..<Suc (length pre)])"
proof (intro conjI impI allI)
  assume "thrown (fire this e d w) = None"
  with reg have "thrown (snd (forEach_cb e 0 cbs d w)) = None"
    by (simp add: fire_def)
  then have "length (calls (snd (forEach_cb e 0 cbs d w))) = length cbs"
    by (rule forEach_cb_all)
  with forEach_cb_calls_index [of e 0 cbs d w] reg
  show "map call_index (calls (fire this e d w)) = [0..<length cbs]"
    by (simp add: fire_def)
next
  fix pre cb post d1 r1 x d2 w2
  assume split: "cbs = pre @ cb # post"
    and pre: "forEach_cb e 0 pre d w = (d1, r1)" "thrown r1 = None"
    and cb: "cb d1 (world r1) = Outcome (Some x) d2 w2"
  from forEach_cb_stops [of e 0 pre d w d1 r1 cb x d2 w2 post] pre cb reg split
  show eq: "fire this e d w =
      \<lparr>thrown = Some x, world = w2, calls = calls r1 @ [Call e (length pre) d1], printed = []\<rparr>"
    by (simp add: fire_def)
  from pre have len: "length (calls r1) = length pre"
    using forEach_cb_all [of e 0 pre d w] by simp
  from forEach_cb_calls_index [of e 0 "pre @ cb # post" d w] reg split eq len
  show "map call_index (calls (fire this e d w)) = [0..<Suc (length pre)]"
    by (simp add: fire_def)
qed

lemma listening_slot:
  "slot (callbacks (listening ''onSensorData'' cbs)) ''onSensorData'' = Listeners cbs"
proof -
  have "\<And>c. onSensorData (foldl (\<lambda>c cb. push c ''onSensorData'' cb) c cbs) = onSensorData c @ cbs"
    by (induction cbs rule: rev_induct) (simp_all add: push_def)
  then show ?thesis by (simp add: listening_def slot_def new_SmartHomeMQTT_def)
qed

lemma on_listening:
  "on ''onSensorData'' cb (listening ''onSensorData'' cbs) = Inr (listening ''onSensorData'' (cbs @ [cb]))"
  by (simp add: on_def listening_def slot_def)

theorem fire_stops_at_first_throw_witness:
  "slot (callbacks (listening ''onSensorData'' [noting ''A'', failing ''B'', noting ''C''])) ''onSensorData''
     = Listeners [noting ''A'', failing ''B'', noting ''C'']
   \<and> fire (listening ''onSensorData'' [noting ''A'', failing ''B'', noting ''C'']) ''onSensorData'' (Str ''x'') []
     = \<lparr>thrown = Some (Thrown (Str ''B'')), world = [''A'', ''B''],
        calls = [Call ''onSensorData'' 0 (Str ''x''), Call ''onSensorData'' 1 (Str ''x'')],
        printed = []\<rparr>
   \<and> map call_index (calls (fire (listening ''onSensorData'' [noting ''A'', failing ''B'', noting ''C''])
         ''onSensorData'' (Str ''x'') [])) = [0, 1]"
proof -
  let ?c = "listening ''onSensorData'' [noting ''A'', failing ''B'', noting ''C'']"
  have reg: "slot (callbacks ?c) ''onSensorData'' = Listeners [noting ''A'', failing ''B'', noting ''C'']"
    by (rule listening_slot)
  have pre: "forEach_cb ''onSensorData'' 0 [noting ''A''] (Str ''x'') [] =
     (Str ''x'', \<lparr>thrown = None, world = [''A''], calls = [Call ''onSensorData'' 0 (Str ''x'')], printed = []\<rparr>)"
    by (simp add: noting_def completed_def)
  have cb: "failing ''B'' (Str ''x'') [''A''] = Outcome (Some (Thrown (Str ''B''))) (Str ''x'') [''A'', ''B'']"
    by (simp add: failing_def)
  from fire_stops_at_first_throw [OF reg, of "Str ''x''" "[]"]
  have "[noting ''A'', failing ''B'', noting ''C''] = [noting ''A''] @ failing ''B'' # [noting ''C''] \<longrightarrow>
        forEach_cb ''onSensorData'' 0 [noting ''A''] (Str ''x'') [] =
          (Str ''x'', \<lparr>thrown = None, world = [''A''], calls = [Call ''onSensorData'' 0 (Str ''x'')], printed = []\<rparr>) \<longrightarrow>
        thrown \<lparr>thrown = None, world = [''A''], calls = [Call ''onSensorData'' 0 (Str ''x'')], printed = []\<rparr> = None \<longrightarrow>
        failing ''B'' (Str ''x'') (world \<lparr>thrown = None, world = [''A''], calls = [Call ''onSensorData'' 0 (Str ''x'')], printed = []\<rparr>)
          = Outcome (Some (Thrown (Str ''B''))) (Str ''x'') [''A'', ''B''] \<longrightarrow>
        fire ?c ''onSensorData'' (Str ''x'') [] =
          \<lparr>thrown = Some (Thrown (Str ''B'')), world = [''A'', ''B''],
           calls = calls \<lparr>thrown = None, world = [''A''], calls = [Call ''onSensorData'' 0 (Str ''x'')], printed = []\<rparr>
                   @ [Call ''onSensorData'' (length [noting ''A'']) (Str ''x'')], printed = []\<rparr>
        \<and> map call_index (calls (fire ?c ''onSensorData'' (Str ''x'') [])) = [0..<Suc (length [noting ''A''])]"
    by blast
  with pre cb have "fire ?c ''onSensorData'' (Str ''x'') [] =
          \<lparr>thrown = Some (Thrown (Str ''B'')), world = [''A'', ''B''],
           calls = [Call ''onSensorData'' 0 (Str ''x''), Call ''onSensorData'' 1 (Str ''x'')], printed = []\<rparr>
        \<and> map call_index (calls (fire ?c ''onSensorData'' (Str ''x'') [])) = [0..<Suc (length [noting ''A''])]"
    by simp
  with reg show ?thesis by simp
qed

text \<open>
  C1 as stated fails: \<open>A\<close> throws, and \<open>B\<close>, registered after it for the same event,
  is not invoked.
\<close>

theorem fire_isolation_counterexample:
  "fire (listening ''onSensorData'' [failing ''A'', noting ''B'']) ''onSensorData'' (Str ''reading'') []
     = \<lparr>thrown = Some (Thrown (Str ''A'')), world = [''A''],
        calls = [Call ''onSensorData'' 0 (Str ''reading'')], printed = []\<rparr>"
  by (simp add: fire_def listening_slot failing_def raised_def)

section \<open>Properties of the connection manager\<close>

text \<open>
  C5 (as amended). On the transport's connect event the handler installed by
  \<^verbatim>\<open>connect()\<close> marks the client connected, subscribes to three topics, in this order:
  the sensor topic, the alarm state topic and the person count topic of the configuration
  (\<^verbatim>\<open>iot/sensors\<close>, \<^verbatim>\<open>iot/alarm/state\<close>, \<^verbatim>\<open>iot/home/person_count\<close> in config.js),
  and then runs the fan-out of \<^verbatim>\<open>onConnect\<close> with the payload undefined. The fourth
  configured topic, the command topic, is published to and never subscribed.
\<close>

theorem on_connect_subscribes:
  assumes "client this = Some c"
  shows "subscriptions (fst (on_connect this w)) =
           subscribed c @ [sensors (topics (config this)), alarmState (topics (config this)),
                           personCount (topics (config this))]
       \<and> connected (fst (on_connect this w))
       \<and> snd (on_connect this w) =
           (let r = fire (fst (on_connect this w)) ''onConnect'' Undefined w
            in r\<lparr>printed := Log ''[MQTT] Connected'' # printed r\<rparr>)
       \<and> (config this = CONFIG h \<longrightarrow>
            subscriptions (fst (on_connect this w)) =
              subscribed c @ [''iot/sensors'', ''iot/alarm/state'', ''iot/home/person_count''])"
  using assms
  by (simp add: on_connect_def subscriptions_def subscribe_def Let_def CONFIG_def)

lemma connect_client:
  "client (fst (connect (new_SmartHomeMQTT (CONFIG [])))) = Some \<lparr>subscribed = [], published = []\<rparr>"
  by (simp add: connect_def)

theorem on_connect_subscribes_witness:
  "client (fst (connect (new_SmartHomeMQTT (CONFIG []) :: unit SmartHomeMQTT)))
     = Some \<lparr>subscribed = [], published = []\<rparr>
   \<and> subscriptions (fst (on_connect (fst (connect (new_SmartHomeMQTT (CONFIG []) :: unit SmartHomeMQTT))) ()))
     = [''iot/sensors'', ''iot/alarm/state'', ''iot/home/person_count'']
   \<and> connected (fst (on_connect (fst (connect (new_SmartHomeMQTT (CONFIG []) :: unit SmartHomeMQTT))) ()))"
  using on_connect_subscribes [OF connect_client, of "()" "[]"]
  by (simp add: connect_def new_SmartHomeMQTT_def CONFIG_def)

text \<open>
  C5 as stated fails: after \<^verbatim>\<open>connect()\<close> and the connect event there are three
  subscriptions, not four.
\<close>

theorem subscribes_three_topics_counterexample:
  "subscriptions connected_client = [''iot/sensors'', ''iot/alarm/state'', ''iot/home/person_count'']
   \<and> length (subscriptions connected_client) \<noteq> 4"
  by (simp add: connected_client_def on_connect_def connect_def new_SmartHomeMQTT_def CONFIG_def
      subscriptions_def subscribe_def Let_def)

lemma thrown_on_message: "thrown (snd (on_message parse topic payload this w)) = None"
  by (simp add: on_message_def completed_def Let_def split: option.splits)

text \<open>
  C4. When the bytes of a message are not JSON, the message handler returns normally with
  a warning on the console, the client and the world are unchanged and no listener is
  invoked; the handler returns normally on every message; and the messages that follow are
  handled as if the malformed one had not been received (its warning apart).
\<close>

theorem on_message_drops_malformed:
  assumes "parse payload = None"
  shows "on_message parse topic payload this w =
           (this, \<lparr>thrown = None, world = w, calls = [], printed = [Warn ''[MQTT] Parse error:'']\<rparr>)
       \<and> thrown (snd (on_message parse topic' payload' this w)) = None
       \<and> fst (on_messages parse ((topic, payload) # ms) this w) = fst (on_messages parse ms this w)
       \<and> snd (on_messages parse ((topic, payload) # ms) this w) =
           (snd (on_messages parse ms this w))
             \<lparr>printed := Warn ''[MQTT] Parse error:'' # printed (snd (on_messages parse ms this w))\<rparr>"
  using assms
  by (simp add: thrown_on_message) (simp add: on_message_def completed_def split_beta)

lemma listening_slot_person:
  "slot (callbacks (listening ''onPersonCount'' cbs)) ''onPersonCount'' = Listeners cbs"
proof -
  have "\<And>c. onPersonCount (foldl (\<lambda>c cb. push c ''onPersonCount'' cb) c cbs) = onPersonCount c @ cbs"
    by (induction cbs rule: rev_induct) (simp_all add: push_def)
  then show ?thesis by (simp add: listening_def slot_def new_SmartHomeMQTT_def)
qed

lemma config_listening: "config (listening e cbs) = CONFIG []"
  by (simp add: listening_def new_SmartHomeMQTT_def)

lemma topics_CONFIG:
  "topics (CONFIG h) = \<lparr>sensors = ''iot/sensors'', alarmState = ''iot/alarm/state'',
     personCount = ''iot/home/person_count'', webCommand = ''iot/web/command''\<rparr>"
  by (simp add: CONFIG_def)

theorem on_message_drops_malformed_witness:
  "example_parse ''{oops'' = None
   \<and> on_message example_parse ''iot/sensors'' ''{oops'' (listening ''onPersonCount'' [noting ''A'']) []
       = (listening ''onPersonCount'' [noting ''A''],
          \<lparr>thrown = None, world = [], calls = [], printed = [Warn ''[MQTT] Parse error:'']\<rparr>)
   \<and> snd (on_messages example_parse [(''iot/sensors'', ''{oops''), (''iot/home/person_count'', ''7'')]
        (listening ''onPersonCount'' [noting ''A'']) [])
       = \<lparr>thrown = None, world = [''A''], calls = [Call ''onPersonCount'' 0 (Num (Fin 7))],
          printed = [Warn ''[MQTT] Parse error:'']\<rparr>"
proof -
  have bad: "example_parse ''{oops'' = None" by (simp add: example_parse_def)
  have good: "snd (on_messages example_parse [(''iot/home/person_count'', ''7'')]
        (listening ''onPersonCount'' [noting ''A'']) [])
       = \<lparr>thrown = None, world = [''A''], calls = [Call ''onPersonCount'' 0 (Num (Fin 7))], printed = []\<rparr>"
    by (simp add: on_message_def example_parse_def handleMessage_def config_listening topics_CONFIG
        fire_def listening_slot_person noting_def completed_def Let_def)
  note inst = on_message_drops_malformed [where parse = example_parse and payload = "''{oops''"
      and topic = "''iot/sensors''" and this = "listening ''onPersonCount'' [noting ''A'']"
      and w = "[]" and ms = "[(''iot/home/person_count'', ''7'')]", OF bad]
  from inst have first:
    "on_message example_parse ''iot/sensors'' ''{oops'' (listening ''onPersonCount'' [noting ''A'']) []
       = (listening ''onPersonCount'' [noting ''A''],
          \<lparr>thrown = None, world = [], calls = [], printed = [Warn ''[MQTT] Parse error:'']\<rparr>)"
    by (rule conjunct1)
  from inst have step:
    "snd (on_messages example_parse [(''iot/sensors'', ''{oops''), (''iot/home/person_count'', ''7'')]
        (listening ''onPersonCount'' [noting ''A'']) [])
     = (snd (on_messages example_parse [(''iot/home/person_count'', ''7'')]
          (listening ''onPersonCount'' [noting ''A'']) []))
        \<lparr>printed := Warn ''[MQTT] Parse error:'' # printed (snd (on_messages example_parse
          [(''iot/home/person_count'', ''7'')] (listening ''onPersonCount'' [noting ''A'']) []))\<rparr>"
    by (rule conjunct2 [OF conjunct2 [OF conjunct2]])
  show ?thesis
    unfolding step good using bad first by simp
qed

lemma spell_norm_Lit: "spell (norm [Lit s]) = s"
  by (cases s) (simp_all add: spell_def)

lemma ToString_Str: "ToString (Str s) = Inr (norm [Lit s])"
  by (simp add: ToString_def del: norm.simps)

lemma command_line_strings:
  "command_line (Str a) (Str b) = Inr (''[MQTT] Command -> '' @ a @ '': '' @ b)"
  by (simp add: command_line_def ToString_Str spell_norm_Lit del: norm.simps)

text \<open>
  C8 (as amended). Without a transport client, or while not connected, \<^verbatim>\<open>publishCommand\<close>
  returns with a warning, publishes nothing and leaves the client unchanged. When connected
  it publishes one message on the command topic: the serialisation of the object with the
  members target, command and params, where params is the argument when it is truthy and
  the empty object otherwise. The call then returns, with a line on the console, when
  target and command can be converted to strings, as they can when they are strings;
  otherwise the conversion raises, after the message was published.
\<close>

theorem publishCommand_best_effort:
  "(client this = None \<or> \<not> connected this \<longrightarrow>
      publishCommand target command params this =
        (this, None, [Warn ''[MQTT] Not connected, cannot send command'']))
   \<and> (client this = Some c \<and> connected this \<longrightarrow>
        fst (publishCommand target command params this) =
          this\<lparr>client := Some (c\<lparr>published := published c @
            [(webCommand (topics (config this)),
              JSON_stringify (Obj [(''target'', target), (''command'', command),
                (''params'', if truthy params then params else Obj [])]))]\<rparr>)\<rparr>
        \<and> snd (publishCommand target command params this) =
            (case command_line target command of
               Inl x \<Rightarrow> (Some x, [])
             | Inr line \<Rightarrow> (None, [Log line])))
   \<and> command_line (Str a) (Str b) = Inr (''[MQTT] Command -> '' @ a @ '': '' @ b)"
  by (simp add: publishCommand_def js_or_def command_line_strings split: option.splits sum.splits)

lemma connected_client_eq:
  "connected_client = (new_SmartHomeMQTT (CONFIG []))
     \<lparr>client := Some \<lparr>subscribed = [''iot/sensors'', ''iot/alarm/state'', ''iot/home/person_count''], published = []\<rparr>,
      connected := True\<rparr>"
  by (simp add: connected_client_def on_connect_def connect_def new_SmartHomeMQTT_def subscribe_def CONFIG_def Let_def)

theorem publishCommand_best_effort_witness:
  \<open>client (new_SmartHomeMQTT (CONFIG []) :: unit SmartHomeMQTT) = None
   \<and> publishCommand (Str ''PI1'') (Str ''arm'') (Obj [(''pin'', Str ''1234'')])
        (new_SmartHomeMQTT (CONFIG []) :: unit SmartHomeMQTT)
       = (new_SmartHomeMQTT (CONFIG []), None, [Warn ''[MQTT] Not connected, cannot send command''])
   \<and> connected connected_client
   \<and> publications (fst (publishCommand (Str ''PI2'') (Str ''timer_add'')
        (Obj [(''seconds'', Num (Fin 30))]) connected_client))
       = [(''iot/web/command'',
           [Lit ''{"target":"PI2","command":"timer_add","params":{"seconds":'', NumStr 30, Lit ''}}''])]
   \<and> snd (publishCommand (Str ''PI2'') (Str ''timer_add'')
        (Obj [(''seconds'', Num (Fin 30))]) connected_client)
       = (None, [Log ''[MQTT] Command -> PI2: timer_add''])
   \<and> publications (fst (publishCommand (Obj [(''toString'', Num (Fin 1))]) (Str ''arm'')
        (Obj []) connected_client))
       = [(''iot/web/command'',
           [Lit ''{"target":{"toString":'', NumStr 1, Lit ''},"command":"arm","params":{}}''])]
   \<and> snd (publishCommand (Obj [(''toString'', Num (Fin 1))]) (Str ''arm'') (Obj []) connected_client)
       = (Some TypeError, [])\<close>
proof -
  let ?cl = "\<lparr>subscribed = [''iot/sensors'', ''iot/alarm/state'', ''iot/home/person_count''], published = []\<rparr>"
  have off: "client (new_SmartHomeMQTT (CONFIG []) :: unit SmartHomeMQTT) = None"
    by (simp add: new_SmartHomeMQTT_def)
  have cl: "client connected_client = Some ?cl"
    and con: "connected connected_client" and cfg: "config connected_client = CONFIG []"
    by (simp_all add: connected_client_eq new_SmartHomeMQTT_def)
  have js: \<open>JSON_stringify (Obj [(''target'', Str ''PI2''), (''command'', Str ''timer_add''),
                (''params'', Obj [(''seconds'', Num (Fin 30))])])
     = [Lit ''{"target":"PI2","command":"timer_add","params":{"seconds":'', NumStr 30, Lit ''}}'']\<close>
    by code_simp
  have js1: \<open>JSON_stringify (Obj [(''target'', Obj [(''toString'', Num (Fin 1))]), (''command'', Str ''arm''),
                (''params'', Obj [])])
     = [Lit ''{"target":{"toString":'', NumStr 1, Lit ''},"command":"arm","params":{}}'']\<close>
    by code_simp
  have line: "command_line (Str ''PI2'') (Str ''timer_add'') = Inr ''[MQTT] Command -> PI2: timer_add''"
    by (simp add: command_line_strings)
  have line1: "command_line (Obj [(''toString'', Num (Fin 1))]) (Str ''arm'') = Inl TypeError"
    by (simp add: command_line_def ToString_def)
  from publishCommand_best_effort [where this = "new_SmartHomeMQTT (CONFIG []) :: unit SmartHomeMQTT"
      and target = "Str ''PI1''" and command = "Str ''arm''" and params = "Obj [(''pin'', Str ''1234'')]"] off
  have a: "publishCommand (Str ''PI1'') (Str ''arm'') (Obj [(''pin'', Str ''1234'')])
        (new_SmartHomeMQTT (CONFIG []) :: unit SmartHomeMQTT)
       = (new_SmartHomeMQTT (CONFIG []), None, [Warn ''[MQTT] Not connected, cannot send command''])"
    by blast
  from publishCommand_best_effort [where this = connected_client
      and target = "Str ''PI2''" and command = "Str ''timer_add''"
      and params = "Obj [(''seconds'', Num (Fin 30))]" and c = ?cl] cl con
  have b: "fst (publishCommand (Str ''PI2'') (Str ''timer_add'') (Obj [(''seconds'', Num (Fin 30))]) connected_client)
     = connected_client\<lparr>client := Some (?cl\<lparr>published := published ?cl @
            [(webCommand (topics (config connected_client)),
              JSON_stringify (Obj [(''target'', Str ''PI2''), (''command'', Str ''timer_add''),
                (''params'', if truthy (Obj [(''seconds'', Num (Fin 30))]) then Obj [(''seconds'', Num (Fin 30))] else Obj [])]))]\<rparr>)\<rparr>"
    and b': "snd (publishCommand (Str ''PI2'') (Str ''timer_add'') (Obj [(''seconds'', Num (Fin 30))]) connected_client)
     = (case command_line (Str ''PI2'') (Str ''timer_add'') of
               Inl x \<Rightarrow> (Some x, [])
             | Inr line \<Rightarrow> (None, [Log line]))"
    by blast+
  from publishCommand_best_effort [where this = connected_client
      and target = "Obj [(''toString'', Num (Fin 1))]" and command = "Str ''arm''"
      and params = "Obj []" and c = ?cl] cl con
  have d: "fst (publishCommand (Obj [(''toString'', Num (Fin 1))]) (Str ''arm'') (Obj []) connected_client)
     = connected_client\<lparr>client := Some (?cl\<lparr>published := published ?cl @
            [(webCommand (topics (config connected_client)),
              JSON_stringify (Obj [(''target'', Obj [(''toString'', Num (Fin 1))]), (''command'', Str ''arm''),
                (''params'', if truthy (Obj []) then Obj [] else Obj [])]))]\<rparr>)\<rparr>"
    and d': "snd (publishCommand (Obj [(''toString'', Num (Fin 1))]) (Str ''arm'') (Obj []) connected_client)
     = (case command_line (Obj [(''toString'', Num (Fin 1))]) (Str ''arm'') of
               Inl x \<Rightarrow> (Some x, [])
             | Inr line \<Rightarrow> (None, [Log line]))"
    by blast+
  show ?thesis
    unfolding a b b' d d' line line1 using off con
    by (simp add: publications_def cfg topics_CONFIG js js1)
qed

text \<open>
  C8 as stated fails when params is left out: the object \<^verbatim>\<open>{target, command, params}\<close>
  would serialise without a params member, and the message published has an empty object
  there.
\<close>

theorem publishCommand_params_counterexample:
  \<open>publications (fst (publishCommand (Str ''PI2'') (Str ''timer_stop'') Undefined connected_client))
     = [(''iot/web/command'', [Lit ''{"target":"PI2","command":"timer_stop","params":{}}''])]
   \<and> JSON_stringify (Obj [(''target'', Str ''PI2''), (''command'', Str ''timer_stop''),
                          (''params'', Undefined)])
     = [Lit ''{"target":"PI2","command":"timer_stop"}'']\<close>
proof -
  have js: \<open>JSON_stringify (Obj [(''target'', Str ''PI2''), (''command'', Str ''timer_stop''), (''params'', Obj [])])
     = [Lit ''{"target":"PI2","command":"timer_stop","params":{}}'']\<close>
    by code_simp
  have js': \<open>JSON_stringify (Obj [(''target'', Str ''PI2''), (''command'', Str ''timer_stop''), (''params'', Undefined)])
     = [Lit ''{"target":"PI2","command":"timer_stop"}'']\<close>
    by code_simp
  show ?thesis
    by (simp add: js' publishCommand_def connected_client_eq new_SmartHomeMQTT_def publications_def
        topics_CONFIG js_or_def js command_line_strings)
qed

section \<open>Properties of the message router\<close>

lemma fire_sensor:
  "fire this ''onSensorData'' d w = snd (forEach_cb ''onSensorData'' 0 (onSensorData (callbacks this)) d w)"
  by (simp add: fire_def slot_def)

lemma forEach_cb_invoke_all:
  "(thrown (snd (forEach_cb e i cbs d w)), world (snd (forEach_cb e i cbs d w))) = invoke_all cbs d w"
  by (induction cbs arbitrary: i d w)
    (auto simp: completed_def raised_def split_beta split: outcome.splits option.splits)

lemma forEach_cb_observed:
  "map call_payload (calls (snd (forEach_cb e i cbs d w))) = observed cbs d w"
  by (induction cbs arbitrary: i d w)
    (auto simp: completed_def raised_def split_beta split: outcome.splits option.splits)

lemma forEach_cb_head:
  "map call_payload (filter (\<lambda>c. call_index c = i) (calls (snd (forEach_cb e i cbs d w))))
     = (if cbs = [] then [] else [d])"
proof (cases cbs)
  case Nil
  then show ?thesis by (simp add: completed_def)
next
  case (Cons cb rest)
  have later: "filter (\<lambda>c. call_index c = i) (calls (snd (forEach_cb e (Suc i) rest d' w'))) = []" for d' w'
  proof -
    have "\<forall>n\<in>set (map call_index (calls (snd (forEach_cb e (Suc i) rest d' w')))). Suc i \<le> n"
      by (subst forEach_cb_calls_index) auto
    then show ?thesis by (auto simp: filter_empty_conv)
  qed
  show ?thesis
  proof (cases "cb d w")
    case (Outcome t d' w')
    with Cons later [of d' w'] show ?thesis
      by (cases t) (simp_all add: split_beta raised_def)
  qed
qed

lemma resolve_device_object: "is_object item \<Longrightarrow> resolve_device item dev = Inr (resolved dev item)"
  by (cases item) (simp_all add: resolve_device_def resolved_def)

lemma forEach_item_deliver:
  assumes objs: "list_all is_object xs"
  shows "(thrown (forEach_item this dev xs w), world (forEach_item this dev xs w))
           = deliver (onSensorData (callbacks this)) (map (resolved dev) xs) w
       \<and> first_listener_payloads (forEach_item this dev xs w) =
           (if onSensorData (callbacks this) = [] then []
            else delivered (onSensorData (callbacks this)) (map (resolved dev) xs) w)"
  using objs
proof (induction xs arbitrary: w)
  case Nil
  then show ?case by (simp add: completed_def first_listener_payloads_def)
next
  case (Cons item xs)
  let ?cbs = "onSensorData (callbacks this)"
  let ?r = "fire this ''onSensorData'' (resolved dev item) w"
  from Cons.prems have item: "is_object item" and rest: "list_all is_object xs" by simp_all
  have tw: "(thrown ?r, world ?r) = invoke_all ?cbs (resolved dev item) w"
    using forEach_cb_invoke_all [of "''onSensorData''" 0 ?cbs "resolved dev item" w]
    by (simp add: fire_sensor)
  have h: "first_listener_payloads ?r = (if ?cbs = [] then [] else [resolved dev item])"
    using forEach_cb_head [of 0 "''onSensorData''" ?cbs "resolved dev item" w]
    by (simp add: fire_sensor first_listener_payloads_def)
  show ?case
  proof (cases "thrown ?r")
    case None
    with tw have i: "invoke_all ?cbs (resolved dev item) w = (None, world ?r)" by simp
    from Cons.IH [OF rest, of "world ?r"] None h show ?thesis
      by (simp add: resolve_device_object [OF item] and_then_def first_listener_payloads_def Let_def i)
  next
    case (Some x)
    with tw have i: "invoke_all ?cbs (resolved dev item) w = (Some x, world ?r)" by simp
    from Some h show ?thesis
      by (simp add: resolve_device_object [OF item] and_then_def i)
  qed
qed

lemma delivered_take: "\<exists>k. delivered cbs rs w = take k rs"
proof (induction rs arbitrary: w)
  case Nil
  then show ?case by simp
next
  case (Cons r rs)
  show ?case
  proof (cases "invoke_all cbs r w")
    case (Pair t w')
    show ?thesis
    proof (cases t)
      case None
      from Cons.IH [of w'] obtain k where "delivered cbs rs w' = take k rs" ..
      with Pair None have "delivered cbs (r # rs) w = take (Suc k) (r # rs)" by simp
      then show ?thesis ..
    next
      case (Some x)
      with Pair have "delivered cbs (r # rs) w = take 1 (r # rs)" by simp
      then show ?thesis ..
    qed
  qed
qed

lemma delivered_all: "fst (deliver cbs rs w) = None \<Longrightarrow> delivered cbs rs w = rs"
  by (induction rs arbitrary: w) (auto split: prod.splits option.splits)

lemma deliver_append:
  "deliver cbs (pre @ rs) w =
     (case deliver cbs pre w of (None, w') \<Rightarrow> deliver cbs rs w' | (Some x, w') \<Rightarrow> (Some x, w'))"
  by (induction pre arbitrary: w) (auto split: prod.splits option.splits)

lemma delivered_append:
  "fst (deliver cbs pre w) = None \<Longrightarrow>
     delivered cbs (pre @ rs) w = pre @ delivered cbs rs (snd (deliver cbs pre w))"
  by (induction pre arbitrary: w) (auto split: prod.splits option.splits)

lemma deliver_stops:
  assumes "fst (deliver cbs pre w) = None"
    and "fst (invoke_all cbs r (snd (deliver cbs pre w))) = Some x"
  shows "fst (deliver cbs (pre @ r # post) w) = Some x
       \<and> delivered cbs (pre @ r # post) w = pre @ [r]"
proof -
  obtain w1 where d: "deliver cbs pre w = (None, w1)"
    using assms(1) by (cases "deliver cbs pre w") simp
  with assms(2) obtain w2 where i: "invoke_all cbs r w1 = (Some x, w2)"
    by (cases "invoke_all cbs r w1") simp
  from d i show ?thesis
    using deliver_append [of cbs pre "r # post" w] delivered_append [OF assms(1), of "r # post"]
    by simp
qed

lemma handleMessage_items:
  assumes "get_prop data ''items'' = Inr (Arr xs qs)"
  shows "handleMessage this (sensors (topics (config this))) data w
           = forEach_item this (member data ''device'') xs w"
proof -
  from assms have "data \<noteq> Undefined" "data \<noteq> Null" by auto
  then obtain dev where "get_prop data ''device'' = Inr dev" by (cases data) simp_all
  with assms show ?thesis
    by (simp add: handleMessage_def js_or_def member_def Let_def)
qed

lemma in_its_turn:
  assumes items: "get_prop data ''items'' = Inr (Arr (pre @ item # post) qs)"
    and objs: "list_all is_object (pre @ item # post)"
    and before: "fst (deliver (onSensorData (callbacks this)) (map (resolved (member data ''device'')) pre) w) = None"
  shows "(onSensorData (callbacks this) \<noteq> [] \<longrightarrow>
           take (Suc (length pre))
             (first_listener_payloads (handleMessage this (sensors (topics (config this))) data w))
           = map (resolved (member data ''device'')) pre @ [resolved (member data ''device'') item])
       \<and> (thrown (handleMessage this (sensors (topics (config this))) data w),
          world (handleMessage this (sensors (topics (config this))) data w))
         = (case invoke_all (onSensorData (callbacks this)) (resolved (member data ''device'') item)
                  (snd (deliver (onSensorData (callbacks this))
                          (map (resolved (member data ''device'')) pre) w)) of
              (None, w') \<Rightarrow>
                deliver (onSensorData (callbacks this)) (map (resolved (member data ''device'')) post) w'
            | (Some x, w') \<Rightarrow> (Some x, w'))"
proof -
  let ?cbs = "onSensorData (callbacks this)"
  let ?f = "resolved (member data ''device'')"
  let ?R = "handleMessage this (sensors (topics (config this))) data w"
  obtain w1 where d: "deliver ?cbs (map ?f pre) w = (None, w1)"
    using before by (cases "deliver ?cbs (map ?f pre) w") simp
  have hm: "?R = forEach_item this (member data ''device'') (pre @ item # post) w"
    using items by (rule handleMessage_items)
  note run = forEach_item_deliver [OF objs, of this "member data ''device''" w, folded hm]
  have a: "delivered ?cbs (map ?f (pre @ item # post)) w
             = map ?f pre @ delivered ?cbs (?f item # map ?f post) w1"
    using delivered_append [OF before, of "?f item # map ?f post"] d by simp
  have t: "take (Suc (length pre)) (delivered ?cbs (map ?f (pre @ item # post)) w) = map ?f pre @ [?f item]"
    unfolding a by simp
  have b: "deliver ?cbs (map ?f (pre @ item # post)) w =
       (case invoke_all ?cbs (?f item) w1 of
          (None, w') \<Rightarrow> deliver ?cbs (map ?f post) w' | (Some x, w') \<Rightarrow> (Some x, w'))"
    using deliver_append [of ?cbs "map ?f pre" "?f item # map ?f post" w] d by simp
  from run t b d show ?thesis by simp
qed

lemma update_absent: "map_of ps k = None \<Longrightarrow> AList.update k v ps = ps @ [(k, v)]"
  by (induction ps) (auto split: if_splits)

lemma nonempty_stringE: "nonempty_string v \<Longrightarrow> \<exists>s. v = Str s \<and> s \<noteq> []"
  by (cases v) simp_all

lemma resolved_well_formed_item:
  assumes "spec_well_formed_item item"
  shows "resolved device item = spec_inherit device item"
proof -
  from assms obtain ps where item: "item = Obj ps" by (cases item) simp_all
  show ?thesis
  proof (cases "map_of ps ''device''")
    case None
    with item show ?thesis
      by (simp add: resolved_def resolve_device_def spec_inherit_def js_or_def update_absent)
  next
    case (Some v)
    with assms item obtain s where "v = Str s" "s \<noteq> []" by (auto dest: nonempty_stringE)
    with item Some show ?thesis
      by (simp add: resolved_def resolve_device_def spec_inherit_def js_or_def AList.update_triv)
  qed
qed

lemma well_formed_item_object: "spec_well_formed_item item \<Longrightarrow> is_object item"
  by (cases item) simp_all

lemma has_device_inherit:
  assumes "spec_well_formed_item item" "d \<noteq> []"
  shows "has_device (spec_inherit (Str d) item)"
proof -
  from assms obtain ps where item: "item = Obj ps" by (cases item) simp_all
  show ?thesis
  proof (cases "map_of ps ''device''")
    case None
    with item assms show ?thesis
      by (simp add: spec_inherit_def has_device_def map_of_append map_add_def)
  next
    case (Some v)
    with item assms show ?thesis
      by (simp add: spec_inherit_def has_device_def)
  qed
qed

text \<open>
  What a well-formed payload on the sensor topic comes to: the loop of \<^verbatim>\<open>_handleMessage\<close>
  runs over items that are objects, and what it hands on are the readings the
  specification describes.
\<close>

lemma well_formed_readings:
  assumes wf: "spec_well_formed data"
  shows "\<exists>xs dev. handleMessage this (sensors (topics (config this))) data w = forEach_item this dev xs w
           \<and> list_all is_object xs \<and> map (resolved dev) xs = spec_readings data
           \<and> list_all has_device (spec_readings data)
           \<and> (member data ''items'' = Undefined \<longrightarrow> spec_readings data = [data])"
proof -
  from wf obtain ps where data: "data = Obj ps" by (cases data) simp_all
  with wf obtain v where v: "map_of ps ''device'' = Some v" "nonempty_string v"
    by (cases "map_of ps ''device''") simp_all
  then obtain d where dev: "map_of ps ''device'' = Some (Str d)" and d: "d \<noteq> []"
    by (auto dest: nonempty_stringE)
  show ?thesis
  proof (cases "map_of ps ''items''")
    case None
    have res: "resolved (Str d) data = data"
      using data dev by (simp add: resolved_def resolve_device_def js_or_def d AList.update_triv)
    have hm: "handleMessage this (sensors (topics (config this))) data w
                = forEach_item this (Str d) [data] w"
      using data dev None by (simp add: handleMessage_def js_or_def Let_def)
    have sr: "spec_readings data = [data]"
      using data None by (simp add: spec_readings_def member_def)
    have hd: "has_device data"
      using data dev d by (simp add: has_device_def)
    have objs: "list_all is_object [data]"
      using data by simp
    from hm objs res sr hd show ?thesis
      by (intro exI [of _ "[data]"] exI [of _ "Str d"]) (simp del: forEach_item.simps)
  next
    case (Some its)
    with wf data dev obtain xs qs where its: "its = Arr xs qs" and items: "list_all spec_well_formed_item xs"
      by (cases its) (simp_all add: d)
    have hm: "handleMessage this (sensors (topics (config this))) data w
                = forEach_item this (Str d) xs w"
      using data dev Some its by (simp add: handleMessage_def js_or_def Let_def)
    have sr: "spec_readings data = map (spec_inherit (Str d)) xs"
      using data dev Some its by (simp add: spec_readings_def member_def)
    have objs: "list_all is_object xs"
      using items by (auto simp: list_all_iff well_formed_item_object)
    have eq: "map (resolved (Str d)) xs = map (spec_inherit (Str d)) xs"
      using items by (auto simp: list_all_iff resolved_well_formed_item)
    have hd: "list_all has_device (map (spec_inherit (Str d)) xs)"
      using items d by (auto simp: list_all_iff has_device_inherit)
    have und: "member data ''items'' \<noteq> Undefined"
      using data Some its by (simp add: member_def)
    from hm objs eq sr hd und show ?thesis
      by (intro exI [of _ xs] exI [of _ "Str d"]) (simp del: forEach_item.simps)
  qed
qed

text \<open>
  C3 (as amended). For a well-formed payload on the sensor topic, whatever the listeners:
  the readings are those the specification describes (without \<^verbatim>\<open>items\<close> the payload itself
  is the only one; an item without a device of its own has the envelope's, so every reading
  has a non-empty device); they are delivered to the listeners one per item, in array
  order, all within the handling of this one message, until a listener throws: the reading
  on which a listener throws is the last one delivered, the rest of the batch is skipped,
  and the message handler catches the exception and prints a warning. When no listener
  throws, every reading is delivered.
\<close>

theorem sensor_batch_in_order:
  assumes wf: "spec_well_formed data"
  shows "(thrown (handleMessage this (sensors (topics (config this))) data w),
          world (handleMessage this (sensors (topics (config this))) data w))
           = deliver (onSensorData (callbacks this)) (spec_readings data) w
       \<and> first_listener_payloads (handleMessage this (sensors (topics (config this))) data w)
           = (if onSensorData (callbacks this) = [] then []
              else delivered (onSensorData (callbacks this)) (spec_readings data) w)
       \<and> (\<exists>k. delivered (onSensorData (callbacks this)) (spec_readings data) w
                = take k (spec_readings data))
       \<and> (fst (deliver (onSensorData (callbacks this)) (spec_readings data) w) = None \<longrightarrow>
            delivered (onSensorData (callbacks this)) (spec_readings data) w = spec_readings data)
       \<and> (\<forall>pre r post x.
            spec_readings data = pre @ r # post \<longrightarrow>
            fst (deliver (onSensorData (callbacks this)) pre w) = None \<longrightarrow>
            fst (invoke_all (onSensorData (callbacks this)) r
                   (snd (deliver (onSensorData (callbacks this)) pre w))) = Some x \<longrightarrow>
              thrown (handleMessage this (sensors (topics (config this))) data w) = Some x
              \<and> delivered (onSensorData (callbacks this)) (spec_readings data) w = pre @ [r])
       \<and> list_all has_device (spec_readings data)
       \<and> (member data ''items'' = Undefined \<longrightarrow> spec_readings data = [data])
       \<and> (parse payload = Some data \<longrightarrow>
            thrown (snd (on_message parse (sensors (topics (config this))) payload this w)) = None
            \<and> world (snd (on_message parse (sensors (topics (config this))) payload this w))
                = world (handleMessage this (sensors (topics (config this))) data w)
            \<and> calls (snd (on_message parse (sensors (topics (config this))) payload this w))
                = calls (handleMessage this (sensors (topics (config this))) data w)
            \<and> printed (snd (on_message parse (sensors (topics (config this))) payload this w))
                = (if thrown (handleMessage this (sensors (topics (config this))) data w) = None
                   then printed (handleMessage this (sensors (topics (config this))) data w)
                   else printed (handleMessage this (sensors (topics (config this))) data w)
                        @ [Warn ''[MQTT] Parse error:'']))"
proof -
  let ?cbs = "onSensorData (callbacks this)"
  let ?R = "handleMessage this (sensors (topics (config this))) data w"
  from well_formed_readings [OF wf, of this w] obtain xs dev
    where hm: "?R = forEach_item this dev xs w" and objs: "list_all is_object xs"
      and sr: "map (resolved dev) xs = spec_readings data"
      and hd: "list_all has_device (spec_readings data)"
      and flat: "member data ''items'' = Undefined \<longrightarrow> spec_readings data = [data]"
    by blast
  note run = forEach_item_deliver [OF objs, of this dev w, folded hm, unfolded sr]
  have om: "parse payload = Some data \<longrightarrow>
       thrown (snd (on_message parse (sensors (topics (config this))) payload this w)) = None
       \<and> world (snd (on_message parse (sensors (topics (config this))) payload this w)) = world ?R
       \<and> calls (snd (on_message parse (sensors (topics (config this))) payload this w)) = calls ?R
       \<and> printed (snd (on_message parse (sensors (topics (config this))) payload this w))
           = (if thrown ?R = None then printed ?R else printed ?R @ [Warn ''[MQTT] Parse error:''])"
    by (simp add: on_message_def Let_def split: option.splits)
  have stop: "\<forall>pre r post x.
       spec_readings data = pre @ r # post \<longrightarrow>
       fst (deliver ?cbs pre w) = None \<longrightarrow>
       fst (invoke_all ?cbs r (snd (deliver ?cbs pre w))) = Some x \<longrightarrow>
         thrown ?R = Some x \<and> delivered ?cbs (spec_readings data) w = pre @ [r]"
  proof (intro allI impI)
    fix pre r post x
    assume split: "spec_readings data = pre @ r # post"
      and pre: "fst (deliver ?cbs pre w) = None"
      and r: "fst (invoke_all ?cbs r (snd (deliver ?cbs pre w))) = Some x"
    from run have "thrown ?R = fst (deliver ?cbs (spec_readings data) w)"
      by (metis fst_conv)
    with deliver_stops [OF pre r, of post] split
    show "thrown ?R = Some x \<and> delivered ?cbs (spec_readings data) w = pre @ [r]"
      by simp
  qed
  from run delivered_take [of ?cbs "spec_readings data" w]
    delivered_all [of ?cbs "spec_readings data" w] stop hd flat om
  show ?thesis by blast
qed

lemma read_only_noting: "read_only (noting n)"
  by (simp add: read_only_def noting_def)

lemma callbacks_listening:
  "onSensorData (callbacks (listening ''onSensorData'' cbs)) = cbs"
  using listening_slot [of cbs] by (simp add: slot_def)

lemma sensor_topic_listening: "sensors (topics (config (listening e cbs))) = ''iot/sensors''"
  by (simp add: config_listening topics_CONFIG)

theorem sensor_batch_in_order_witness:
  "spec_well_formed sample_batch
   \<and> sample_parse sample_text = Some sample_batch
   \<and> thrown (handleMessage (listening ''onSensorData'' [noting ''A'', noting ''B''])
        ''iot/sensors'' sample_batch []) = None
   \<and> world (handleMessage (listening ''onSensorData'' [noting ''A'', noting ''B''])
        ''iot/sensors'' sample_batch []) = [''A'', ''B'', ''A'', ''B'']
   \<and> first_listener_payloads (handleMessage (listening ''onSensorData'' [noting ''A'', noting ''B''])
        ''iot/sensors'' sample_batch [])
       = [Obj [(''sensor'', Str ''DL''), (''value'', Num (Fin 1)), (''device'', Str ''PI1'')],
          Obj [(''sensor'', Str ''DB''), (''value'', Num (Fin 0)), (''device'', Str ''PI2'')]]
   \<and> world (snd (on_message sample_parse ''iot/sensors'' sample_text
        (listening ''onSensorData'' [noting ''A'', noting ''B'']) [])) = [''A'', ''B'', ''A'', ''B'']
   \<and> spec_well_formed flat_payload
   \<and> member flat_payload ''items'' = Undefined
   \<and> first_listener_payloads (handleMessage (listening ''onSensorData'' [noting ''A''])
        ''iot/sensors'' flat_payload []) = [flat_payload]
   \<and> thrown (handleMessage (listening ''onSensorData'' [failing ''A'', noting ''B''])
        ''iot/sensors'' sample_batch []) = Some (Thrown (Str ''A''))
   \<and> first_listener_payloads (handleMessage (listening ''onSensorData'' [failing ''A'', noting ''B''])
        ''iot/sensors'' sample_batch [])
       = [Obj [(''sensor'', Str ''DL''), (''value'', Num (Fin 1)), (''device'', Str ''PI1'')]]"
proof -
  let ?c = "listening ''onSensorData'' [noting ''A'', noting ''B''] :: string list SmartHomeMQTT"
  let ?c1 = "listening ''onSensorData'' [noting ''A''] :: string list SmartHomeMQTT"
  let ?rs = "[Obj [(''sensor'', Str ''DL''), (''value'', Num (Fin 1)), (''device'', Str ''PI1'')],
              Obj [(''sensor'', Str ''DB''), (''value'', Num (Fin 0)), (''device'', Str ''PI2'')]]"
  have wf: "spec_well_formed sample_batch"
    by (simp add: sample_batch_def)
  have wf1: "spec_well_formed flat_payload"
    by (simp add: flat_payload_def)
  have p: "sample_parse sample_text = Some sample_batch"
    by (simp add: sample_parse_def)
  have sr: "spec_readings sample_batch = ?rs"
    by (simp add: spec_readings_def sample_batch_def member_def spec_inherit_def)
  have und: "member flat_payload ''items'' = Undefined"
    by (simp add: flat_payload_def member_def)
  have d: "deliver [noting ''A'', noting ''B''] ?rs [] = (None, [''A'', ''B'', ''A'', ''B''])"
    by (simp add: noting_def)
  have dd: "delivered [noting ''A'', noting ''B''] ?rs [] = ?rs"
    by (simp add: noting_def)
  have d1: "delivered [noting ''A''] [flat_payload] [] = [flat_payload]"
    by (simp add: noting_def)
  note batch = sensor_batch_in_order [OF wf, of ?c "[]" sample_parse sample_text,
      unfolded sensor_topic_listening callbacks_listening sr d dd]
  note flat = sensor_batch_in_order [OF wf1, of ?c1 "[]" sample_parse sample_text,
      unfolded sensor_topic_listening callbacks_listening]
  from batch have b1: "(thrown (handleMessage ?c ''iot/sensors'' sample_batch []),
        world (handleMessage ?c ''iot/sensors'' sample_batch [])) = (None, [''A'', ''B'', ''A'', ''B''])"
    by (rule conjunct1)
  from batch have b2: "first_listener_payloads (handleMessage ?c ''iot/sensors'' sample_batch []) = ?rs"
    by simp
  from batch p b1 have b3: "world (snd (on_message sample_parse ''iot/sensors'' sample_text ?c []))
      = [''A'', ''B'', ''A'', ''B'']"
    by simp
  from flat und have f1: "first_listener_payloads (handleMessage ?c1 ''iot/sensors'' flat_payload [])
      = delivered [noting ''A''] [flat_payload] []"
    by simp
  let ?c2 = "listening ''onSensorData'' [failing ''A'', noting ''B''] :: string list SmartHomeMQTT"
  have e: "deliver [failing ''A'', noting ''B''] ?rs [] = (Some (Thrown (Str ''A'')), [''A''])"
    by (simp add: failing_def)
  have ee: "delivered [failing ''A'', noting ''B''] ?rs []
      = [Obj [(''sensor'', Str ''DL''), (''value'', Num (Fin 1)), (''device'', Str ''PI1'')]]"
    by (simp add: failing_def)
  note cut = sensor_batch_in_order [OF wf, of ?c2 "[]" sample_parse sample_text,
      unfolded sensor_topic_listening callbacks_listening sr e ee]
  from cut have c1: "(thrown (handleMessage ?c2 ''iot/sensors'' sample_batch []),
        world (handleMessage ?c2 ''iot/sensors'' sample_batch [])) = (Some (Thrown (Str ''A'')), [''A''])"
    by (rule conjunct1)
  from cut have c2: "first_listener_payloads (handleMessage ?c2 ''iot/sensors'' sample_batch [])
      = [Obj [(''sensor'', Str ''DL''), (''value'', Num (Fin 1)), (''device'', Str ''PI1'')]]"
    by simp
  from wf wf1 p und b1 b2 b3 f1 d1 c1 c2 show ?thesis by simp
qed

text \<open>
  C3 as stated fails: the payload is well-formed and has two readings, but the dashboard's
  listener throws on the first (a colour reading whose value is null), so the second is
  never handed on.
\<close>

theorem sensor_batch_cut_short_counterexample:
  "spec_well_formed null_colour_batch
   \<and> spec_readings null_colour_batch
       = [Obj [(''sensor'', Str ''BRGB''), (''value'', Null), (''device'', Str ''PI1'')],
          Obj [(''sensor'', Str ''DL''), (''value'', Num (Fin 1)), (''device'', Str ''PI1'')]]
   \<and> thrown (handleMessage (listening ''onSensorData'' [sensor_listener]) ''iot/sensors''
        null_colour_batch (example_page 1000000)) = Some TypeError
   \<and> calls (handleMessage (listening ''onSensorData'' [sensor_listener]) ''iot/sensors''
        null_colour_batch (example_page 1000000))
       = [Call ''onSensorData'' 0
            (Obj [(''sensor'', Str ''BRGB''), (''value'', Null), (''device'', Str ''PI1'')])]"
  by code_simp

lemma forEach_cb_read_only:
  "list_all read_only cbs \<Longrightarrow>
     snd (forEach_cb e i cbs d w) = r \<Longrightarrow>
     thrown r = None \<and> calls r = map (\<lambda>j. Call e j d) [i..<i + length cbs]"
proof (induction cbs arbitrary: i w r)
  case Nil
  then show ?case by (auto simp: completed_def)
next
  case (Cons cb cbs)
  from Cons.prems have "thrown_by (cb d w) = None" "payload_after (cb d w) = d"
    by (simp_all add: read_only_def)
  then obtain w' where o: "cb d w = Outcome None d w'" by (cases "cb d w") auto
  from Cons.prems have ro: "list_all read_only cbs" by simp
  have up: "[i..<i + length (cb # cbs)] = i # [Suc i..<Suc i + length cbs]"
    by (simp add: upt_conv_Cons del: upt_Suc)
  from Cons.IH [OF ro, of "Suc i" w' "snd (forEach_cb e (Suc i) cbs d w')"] o Cons.prems(2)
  show ?case unfolding up by (auto simp: split_beta simp del: upt_Suc)
qed

text \<open>
  C10 (as amended). The device is inherited by falsiness: whenever the item's own
  \<^verbatim>\<open>device\<close> is falsy (absent, null, the empty string, and also 0, false or NaN) the loop
  assigns the envelope's device to the item itself, and it is this one object that the
  fan-out is run on: the first listener is invoked with it, and each later listener with
  the same object as the listeners before it left it, provided they all returned. So
  listeners that return and leave the object as it is are all invoked with the resolved
  item, resolved device included.
\<close>

theorem device_inherited_when_falsy:
  assumes own: "get_prop (Obj ps) ''device'' = Inr own" and falsy: "\<not> truthy own"
  shows "resolve_device (Obj ps) device = Inr (Obj (AList.update ''device'' device ps))
       \<and> get_prop (Obj (AList.update ''device'' device ps)) ''device'' = Inr device
       \<and> forEach_item this device (Obj ps # rest) w =
           and_then (fire this ''onSensorData'' (Obj (AList.update ''device'' device ps)) w)
             (forEach_item this device rest)
       \<and> map call_payload (calls (fire this ''onSensorData'' (Obj (AList.update ''device'' device ps)) w))
           = observed (onSensorData (callbacks this)) (Obj (AList.update ''device'' device ps)) w
       \<and> map call_index (calls (fire this ''onSensorData'' (Obj (AList.update ''device'' device ps)) w))
           = [0..<length (observed (onSensorData (callbacks this))
                            (Obj (AList.update ''device'' device ps)) w)]
       \<and> (thrown (fire this ''onSensorData'' (Obj (AList.update ''device'' device ps)) w),
          world (fire this ''onSensorData'' (Obj (AList.update ''device'' device ps)) w))
           = invoke_all (onSensorData (callbacks this)) (Obj (AList.update ''device'' device ps)) w
       \<and> (list_all read_only (onSensorData (callbacks this)) \<longrightarrow>
            calls (fire this ''onSensorData'' (Obj (AList.update ''device'' device ps)) w) =
              map (\<lambda>j. Call ''onSensorData'' j (Obj (AList.update ''device'' device ps)))
                [0..<length (onSensorData (callbacks this))])"
proof -
  let ?cbs = "onSensorData (callbacks this)"
  let ?item = "Obj (AList.update ''device'' device ps)"
  have r: "resolve_device (Obj ps) device = Inr ?item"
    using own falsy by (simp add: resolve_device_def js_or_def)
  have g: "get_prop ?item ''device'' = Inr device"
    by (simp add: AList.update_conv')
  have l: "forEach_item this device (Obj ps # rest) w =
      and_then (fire this ''onSensorData'' ?item w) (forEach_item this device rest)"
    by (simp add: r)
  have o: "map call_payload (calls (fire this ''onSensorData'' ?item w)) = observed ?cbs ?item w"
    unfolding fire_sensor by (rule forEach_cb_observed)
  have i: "map call_index (calls (fire this ''onSensorData'' ?item w))
      = [0..<length (observed ?cbs ?item w)]"
    using forEach_cb_calls_index [of "''onSensorData''" 0 ?cbs ?item w]
      arg_cong [OF forEach_cb_observed [of "''onSensorData''" 0 ?cbs ?item w], of length]
    by (simp add: fire_sensor)
  have t: "(thrown (fire this ''onSensorData'' ?item w), world (fire this ''onSensorData'' ?item w))
      = invoke_all ?cbs ?item w"
    unfolding fire_sensor by (rule forEach_cb_invoke_all)
  have f: "list_all read_only ?cbs \<longrightarrow>
            calls (fire this ''onSensorData'' ?item w) =
              map (\<lambda>j. Call ''onSensorData'' j ?item) [0..<length ?cbs]"
    using forEach_cb_read_only [of ?cbs "''onSensorData''" 0 ?item w]
    by (simp add: fire_sensor)
  from r g l o i t f show ?thesis by blast
qed

theorem device_inherited_when_falsy_witness:
  "get_prop (Obj [(''sensor'', Str ''DL''), (''device'', Str [])]) ''device'' = Inr (Str [])
   \<and> resolve_device (Obj [(''sensor'', Str ''DL''), (''device'', Str [])]) (Str ''PI1'')
       = Inr (Obj [(''sensor'', Str ''DL''), (''device'', Str ''PI1'')])
   \<and> list_all read_only [noting ''A'', noting ''B'']
   \<and> calls (handleMessage (listening ''onSensorData'' [noting ''A'', noting ''B'']) ''iot/sensors''
        unnamed_batch [])
       = [Call ''onSensorData'' 0 (Obj [(''sensor'', Str ''DL''), (''device'', Str ''PI1'')]),
          Call ''onSensorData'' 1 (Obj [(''sensor'', Str ''DL''), (''device'', Str ''PI1'')])]
   \<and> world (handleMessage (listening ''onSensorData'' [noting ''A'', noting ''B'']) ''iot/sensors''
        unnamed_batch []) = [''A'', ''B'']
   \<and> map call_payload (calls (fire (listening ''onSensorData'' [relabelling ''X'', noting ''B''])
        ''onSensorData'' (Obj [(''sensor'', Str ''DL''), (''device'', Str ''PI1'')]) []))
       = [Obj [(''sensor'', Str ''DL''), (''device'', Str ''PI1'')],
          Obj [(''sensor'', Str ''DL''), (''device'', Str ''X'')]]"
proof -
  let ?c = "listening ''onSensorData'' [noting ''A'', noting ''B''] :: string list SmartHomeMQTT"
  let ?c1 = "listening ''onSensorData'' [relabelling ''X'', noting ''B''] :: string list SmartHomeMQTT"
  let ?ps = "[(''sensor'', Str ''DL''), (''device'', Str [])]"
  have own: "get_prop (Obj ?ps) ''device'' = Inr (Str [])" by simp
  have falsy: "\<not> truthy (Str [])" by simp
  have ro: "list_all read_only (onSensorData (callbacks ?c))"
    by (simp add: callbacks_listening read_only_noting)
  have upd: "AList.update ''device'' (Str ''PI1'') ?ps = [(''sensor'', Str ''DL''), (''device'', Str ''PI1'')]"
    by simp
  note inst = device_inherited_when_falsy [OF own falsy, of "Str ''PI1''" ?c "[]" "[]", unfolded upd]
  note inst1 = device_inherited_when_falsy [OF own falsy, of "Str ''PI1''" ?c1 "[]" "[]", unfolded upd]
  let ?item = "Obj [(''sensor'', Str ''DL''), (''device'', Str ''PI1'')]"
  from inst have r: "resolve_device (Obj ?ps) (Str ''PI1'') = Inr ?item"
    by (rule conjunct1)
  from inst ro have c: "calls (fire ?c ''onSensorData'' ?item []) =
      map (\<lambda>j. Call ''onSensorData'' j ?item) [0..<length (onSensorData (callbacks ?c))]"
    by blast
  from inst have "(thrown (fire ?c ''onSensorData'' ?item []), world (fire ?c ''onSensorData'' ?item []))
      = invoke_all (onSensorData (callbacks ?c)) ?item []"
    by blast
  then have t: "thrown (fire ?c ''onSensorData'' ?item []) = None"
    and w: "world (fire ?c ''onSensorData'' ?item []) = [''A'', ''B'']"
    by (simp_all add: callbacks_listening noting_def)
  from inst1 have "map call_payload (calls (fire ?c1 ''onSensorData'' ?item []))
      = observed (onSensorData (callbacks ?c1)) ?item []"
    by blast
  then have o: "map call_payload (calls (fire ?c1 ''onSensorData'' ?item []))
      = [?item, Obj [(''sensor'', Str ''DL''), (''device'', Str ''X'')]]"
    by (simp add: callbacks_listening relabelling_def noting_def)
  have h: "handleMessage ?c ''iot/sensors'' unnamed_batch []
      = forEach_item ?c (Str ''PI1'') [Obj ?ps] []"
    by (simp add: handleMessage_def config_listening topics_CONFIG js_or_def Let_def unnamed_batch_def
        del: forEach_item.simps)
  have "calls (forEach_item ?c (Str ''PI1'') [Obj ?ps] []) = calls (fire ?c ''onSensorData'' ?item [])"
    and "world (forEach_item ?c (Str ''PI1'') [Obj ?ps] []) = world (fire ?c ''onSensorData'' ?item [])"
    unfolding forEach_item.simps r by (simp_all add: and_then_def t completed_def Let_def)
  with c r own h w o show ?thesis
    by (simp add: callbacks_listening read_only_noting upt_rec del: forEach_item.simps)
qed

text \<open>
  C10 as stated fails: a listener that changes the device of the object it is handed makes
  the next listener observe another device than the resolved one, and after a listener
  that throws the next listener observes nothing.
\<close>

theorem later_listener_counterexample:
  "calls (handleMessage (listening ''onSensorData'' [relabelling ''X'', noting ''B'']) ''iot/sensors''
      unnamed_batch [])
     = [Call ''onSensorData'' 0 (Obj [(''sensor'', Str ''DL''), (''device'', Str ''PI1'')]),
        Call ''onSensorData'' 1 (Obj [(''sensor'', Str ''DL''), (''device'', Str ''X'')])]
   \<and> calls (handleMessage (listening ''onSensorData'' [failing ''A'', noting ''B'']) ''iot/sensors''
      unnamed_batch [])
     = [Call ''onSensorData'' 0 (Obj [(''sensor'', Str ''DL''), (''device'', Str ''PI1'')])]"
  by code_simp

section \<open>Properties of the dashboard\<close>








lemma width_le: "1 < b \<Longrightarrow> n < b ^ k \<Longrightarrow> width b n \<le> k"
proof (induction k arbitrary: n)
  case 0
  then show ?case by (subst width.simps) simp
next
  case (Suc k)
  show ?case
  proof (cases "n \<le> 0")
    case True
    then show ?thesis by (subst width.simps) simp
  next
    case False
    have "b * (n div b) + n mod b = n" by simp
    moreover have "0 \<le> n mod b" using Suc.prems(1) by simp
    moreover from Suc.prems(2) have "n < b * b ^ k" by simp
    ultimately have "b * (n div b) < b * b ^ k" by linarith
    with Suc.prems(1) have "n div b < b ^ k" by (simp add: mult_less_cancel_left_pos)
    from Suc.IH [OF Suc.prems(1) this] False Suc.prems(1) show ?thesis
      by (subst width.simps) simp
  qed
qed

lemma round_half_even_le: "t \<le> of_int N \<Longrightarrow> round_half_even t \<le> N"
proof -
  assume le: "t \<le> of_int N"
  show ?thesis
  proof (cases "t = of_int N")
    case True
    then show ?thesis by (simp add: round_half_even_def)
  next
    case False
    with le have "t < of_int N" by simp
    then have "\<lfloor>t\<rfloor> < N" by (simp add: floor_less_iff)
    then show ?thesis by (simp add: round_half_even_def Let_def)
  qed
qed

lemma round_half_even_nonneg: "0 \<le> t \<Longrightarrow> 0 \<le> round_half_even t"
  by (simp add: round_half_even_def Let_def)

lemma magnitude_le:
  assumes "0 < y" "y \<le> of_int N" "N < 2 ^ 53"
  shows "magnitude 2 y \<le> 52"
proof (cases "1 \<le> y")
  case True
  from assms have "\<lfloor>y\<rfloor> \<le> N" by (simp add: floor_le_iff)
  with assms have "\<lfloor>y\<rfloor> < 2 ^ 53" by simp
  then have "width 2 \<lfloor>y\<rfloor> \<le> 53" by (intro width_le) simp_all
  with True show ?thesis by (simp add: magnitude_def)
next
  case False
  then show ?thesis by (simp add: magnitude_def)
qed

text \<open>
  Rounding to binary64 does not leave an interval from 0 to an integer below 2 to the
  power 53, such an integer being a binary64 number.
\<close>

lemma binary64_bounded:
  assumes "0 \<le> y" "y \<le> of_int N" "N < 2 ^ 53"
  shows "\<exists>z. binary64 y = Fin z \<and> 0 \<le> z \<and> z \<le> of_int N"
proof (cases "y = 0")
  case True
  with assms show ?thesis by (simp add: binary64_def)
next
  case False
  with assms have pos: "0 < y" by simp
  define e where "e = max (magnitude 2 y) (- 1022)"
  define j where "j = nat (52 - e)"
  define m where "m = round_half_even (y * 2 ^ j)"
  have e: "e \<le> 52" using magnitude_le [OF pos assms(2,3)] by (simp add: e_def)
  have q: "scale 2 (e - 52) = 1 / 2 ^ j"
    using e by (cases "e = 52") (simp_all add: scale_def j_def)
  have "y * 2 ^ j \<le> of_int (N * 2 ^ j)"
    using assms by simp
  then have hi: "m \<le> N * 2 ^ j" unfolding m_def by (rule round_half_even_le)
  have lo: "0 \<le> m" unfolding m_def using assms by (intro round_half_even_nonneg) simp
  have b: "binary64 y = Fin (of_int m / 2 ^ j)"
    using False pos e by (simp add: binary64_def Let_def e_def [symmetric] q m_def)
  from hi have "(of_int m :: rat) \<le> of_int (N * 2 ^ j)" by (simp only: of_int_le_iff)
  then have "(of_int m :: rat) / 2 ^ j \<le> of_int N" by (simp add: field_simps)
  with b lo show ?thesis by simp
qed

lemma binary64_0: "binary64 0 = Fin 0"
  by (simp add: binary64_def)

lemma binary64_255: "binary64 255 = Fin 255"
  by code_simp

lemma binary64_half_255: "binary64 (255 / 2) = Fin (255 / 2)"
  by code_simp

lemma floor_halves: "\<lfloor>(1::rat) / 2\<rfloor> = 0" "\<lfloor>(511::rat) / 2\<rfloor> = 255"
  by (simp_all add: floor_eq_iff)

lemma channel_missing: "map_of ps k = None \<Longrightarrow> channel (Obj ps) k = Inr (Fin 0)"
  by (simp add: channel_def js_or_def ToNumber_def binary64_0 floor_halves)

lemma channel_fraction:
  assumes "map_of ps k = Some (Num (Fin x))" "0 \<le> x" "x \<le> 1"
  shows "\<exists>z. binary64 (x * 255) = Fin z \<and> 0 \<le> z \<and> z \<le> 255
             \<and> channel (Obj ps) k = Inr (Fin (of_int \<lfloor>z + 1 / 2\<rfloor>))
             \<and> 0 \<le> \<lfloor>z + 1 / 2\<rfloor> \<and> \<lfloor>z + 1 / 2\<rfloor> \<le> 255"
proof -
  from assms have "0 \<le> x * 255" "x * 255 \<le> of_int 255" by simp_all
  from binary64_bounded [OF this] obtain z where z: "binary64 (x * 255) = Fin z" "0 \<le> z" "z \<le> 255"
    by auto
  have c: "channel (Obj ps) k = Inr (Fin (of_int \<lfloor>z + 1 / 2\<rfloor>))"
    using assms(1) z(1) binary64_0 by (cases "x = 0") (auto simp: channel_def js_or_def ToNumber_def)
  from z have "0 \<le> z + 1 / 2" by simp
  then have lo: "0 \<le> \<lfloor>z + 1 / 2\<rfloor>" by simp
  from z have "z + 1 / 2 < 256" by simp
  then have "\<lfloor>z + 1 / 2\<rfloor> < 256" by (simp add: floor_less_iff)
  with lo c z show ?thesis by auto
qed

text \<open>
  The product is rounded before \<^verbatim>\<open>Math.round\<close> sees it: for this fraction, a binary64
  number, 255 times it is below one half and rounds to one half, so the channel is 1.
\<close>

lemma channel_rounds_product:
  "(282578800148737 / 2 ^ 57 :: rat) * 255 < 1 / 2
   \<and> channel (Obj [(''r'', Num (Fin (282578800148737 / 2 ^ 57)))]) ''r'' = Inr (Fin 1)"
  by code_simp

text \<open>
  C9. A colour channel is \<^verbatim>\<open>Math.round((value.k || 0) * 255)\<close>: the value
  \<^verbatim>\<open>{r: 1, g: 0.5, b: 0}\<close> gives 255, 128 and 0; a missing channel gives 0; for a
  fraction between 0 and 1 the product with 255, rounded to binary64, is between 0 and 255
  and the channel is the integer nearest to it (halves up), between 0 and 255; and
  \<^verbatim>\<open>_updateRGB\<close> makes the preview's background colour \<^verbatim>\<open>rgb(255,128,0)\<close> for that
  value.
\<close>

theorem rgb_channels:
  "channel (Obj [(''r'', Num (Fin 1)), (''g'', Num (Fin (1 / 2))), (''b'', Num (Fin 0))]) ''r'' = Inr (Fin 255)
   \<and> channel (Obj [(''r'', Num (Fin 1)), (''g'', Num (Fin (1 / 2))), (''b'', Num (Fin 0))]) ''g'' = Inr (Fin 128)
   \<and> channel (Obj [(''r'', Num (Fin 1)), (''g'', Num (Fin (1 / 2))), (''b'', Num (Fin 0))]) ''b'' = Inr (Fin 0)
   \<and> (map_of ps k = None \<longrightarrow> channel (Obj ps) k = Inr (Fin 0))
   \<and> (map_of ps k = Some (Num (Fin x)) \<and> 0 \<le> x \<and> x \<le> 1 \<longrightarrow>
        (\<exists>z. binary64 (x * 255) = Fin z \<and> 0 \<le> z \<and> z \<le> 255
             \<and> channel (Obj ps) k = Inr (Fin (of_int \<lfloor>z + 1 / 2\<rfloor>))
             \<and> 0 \<le> \<lfloor>z + 1 / 2\<rfloor> \<and> \<lfloor>z + 1 / 2\<rfloor> \<le> 255))
   \<and> (getElementById doc ''rgb-preview'' = Some el \<longrightarrow>
        updateRGB (Obj [(''r'', Num (Fin 1)), (''g'', Num (Fin (1 / 2))), (''b'', Num (Fin 0))]) doc
          = (None,
             AList.update ''rgb-preview''
               (el\<lparr>style_backgroundColor :=
                     [Lit ''rgb('', NumStr 255, Lit '','', NumStr 128, Lit '','', NumStr 0, Lit '')'']\<rparr>)
               doc))"
proof -
  let ?v = "Obj [(''r'', Num (Fin 1)), (''g'', Num (Fin (1 / 2))), (''b'', Num (Fin 0))]"
  have r: "channel ?v ''r'' = Inr (Fin 255)"
    by (simp add: channel_def js_or_def ToNumber_def binary64_255 floor_halves)
  have g: "channel ?v ''g'' = Inr (Fin 128)"
    by (simp add: channel_def js_or_def ToNumber_def binary64_half_255)
  have b: "channel ?v ''b'' = Inr (Fin 0)"
    by (simp add: channel_def js_or_def ToNumber_def binary64_0 floor_halves)
  have u: "getElementById doc ''rgb-preview'' = Some el \<longrightarrow>
        updateRGB ?v doc
          = (None,
             AList.update ''rgb-preview''
               (el\<lparr>style_backgroundColor :=
                     [Lit ''rgb('', NumStr 255, Lit '','', NumStr 128, Lit '','', NumStr 0, Lit '')'']\<rparr>)
               doc)"
    by (simp add: updateRGB_def r g b rgb_def)
  from r g b u show ?thesis
    using channel_missing [of ps k] channel_fraction [of ps k x]
    by blast
qed

theorem rgb_channels_witness:
  "map_of [(''r'', Num (Fin (1 / 2)))] ''r'' = Some (Num (Fin (1 / 2)))
   \<and> channel (Obj [(''r'', Num (Fin (1 / 2)))]) ''r'' = Inr (Fin 128)
   \<and> map_of [(''r'', Num (Fin (1 / 2)))] ''g'' = None
   \<and> channel (Obj [(''r'', Num (Fin (1 / 2)))]) ''g'' = Inr (Fin 0)
   \<and> getElementById example_doc ''rgb-preview'' = Some blank
   \<and> getElementById
        (snd (updateRGB (Obj [(''r'', Num (Fin 1)), (''g'', Num (Fin (1 / 2))), (''b'', Num (Fin 0))])
                example_doc)) ''rgb-preview''
       = Some (blank\<lparr>style_backgroundColor :=
            [Lit ''rgb('', NumStr 255, Lit '','', NumStr 128, Lit '','', NumStr 0, Lit '')'']\<rparr>)"
proof -
  have el: "getElementById example_doc ''rgb-preview'' = Some blank"
    by (simp add: example_doc_def getElementById_def)
  have m: "map_of [(''r'', Num (Fin (1 / 2)))] ''r'' = Some (Num (Fin (1 / 2)))"
    and n: "map_of [(''r'', Num (Fin (1 / 2)))] ''g'' = None"
    by simp_all
  note inst = rgb_channels [of "[(''r'', Num (Fin (1 / 2)))]" "''r''" "1 / 2" example_doc blank]
  note inst' = rgb_channels [of "[(''r'', Num (Fin (1 / 2)))]" "''g''" "1 / 2" example_doc blank]
  from inst m obtain z where z: "binary64 (1 / 2 * 255) = Fin z"
    and c: "channel (Obj [(''r'', Num (Fin (1 / 2)))]) ''r'' = Inr (Fin (of_int \<lfloor>z + 1 / 2\<rfloor>))"
    by auto
  from z have "z = 255 / 2" by (simp add: binary64_half_255)
  with c have half: "channel (Obj [(''r'', Num (Fin (1 / 2)))]) ''r'' = Inr (Fin 128)"
    by simp
  from inst' n have none: "channel (Obj [(''r'', Num (Fin (1 / 2)))]) ''g'' = Inr (Fin 0)"
    by blast
  from inst el have "updateRGB (Obj [(''r'', Num (Fin 1)), (''g'', Num (Fin (1 / 2))), (''b'', Num (Fin 0))])
        example_doc
      = (None, AList.update ''rgb-preview''
               (blank\<lparr>style_backgroundColor :=
                     [Lit ''rgb('', NumStr 255, Lit '','', NumStr 128, Lit '','', NumStr 0, Lit '')'']\<rparr>)
               example_doc)"
    by blast
  with m n half none el show ?thesis
    by (simp add: getElementById_def AList.update_conv')
qed






lemma lastUpdate_seen:
  assumes "name \<noteq> []"
  shows "seen (Str name) pg =
           (None, pg\<lparr>lastUpdate := AList.update [Lit name] (Some (now pg)) (lastUpdate pg),
                     document := updatePiStatus name True
                        (setText (toLowerCase name @ ''-last-update'')
                           (timeAgo (now pg) (Some (now pg))) (document pg))\<rparr>)"
proof -
  from assms obtain c r where "name = c # r" by (cases name) auto
  then show ?thesis
    by (simp add: seen_def ToString_def Let_def)
qed











lemma dispatch_unknown:
  "sensor \<notin> set (map Str sensor_kinds) \<Longrightarrow> dispatch sensor v item doc = (None, doc)"
  by (simp add: dispatch_def sensor_kinds_def)

lemma updateSensor_unknown:
  assumes "get_prop item ''sensor'' = Inr sensor" "sensor \<notin> set (map Str sensor_kinds)"
  shows "updateSensor item pg = seen (member item ''device'') pg"
proof (cases "seen (member item ''device'') pg")
  case (Pair t pg1)
  with assms show ?thesis
    by (cases t) (simp_all add: updateSensor_def dispatch_unknown Let_def)
qed

lemma seen_string: "fst (seen (Str name) pg) = None"
  by (cases "name = []") (simp_all add: lastUpdate_seen, simp add: seen_def)

text \<open>
  C2 (as amended). The router does not look at the sensor kind. In a batch of objects an
  item of whatever kind, an unknown one included, is handed to the listeners in its turn
  whenever the listeners returned on the items before it, and the items after it follow once
  the listeners returned on it. In \<^verbatim>\<open>updateSensor\<close> an unknown kind matches no case of
  the switch, so the call does what it does for the device (its last update and status) and
  nothing else, and it returns when the device is a string.
\<close>

theorem unknown_kind_still_notified:
  "(get_prop data ''items'' = Inr (Arr (pre @ item # post) qs)
      \<and> list_all is_object (pre @ item # post)
      \<and> fst (deliver (onSensorData (callbacks this))
               (map (resolved (member data ''device'')) pre) w) = None \<longrightarrow>
      (onSensorData (callbacks this) \<noteq> [] \<longrightarrow>
         take (Suc (length pre))
           (first_listener_payloads (handleMessage this (sensors (topics (config this))) data w))
         = map (resolved (member data ''device'')) pre @ [resolved (member data ''device'') item])
      \<and> (thrown (handleMessage this (sensors (topics (config this))) data w),
         world (handleMessage this (sensors (topics (config this))) data w))
        = (case invoke_all (onSensorData (callbacks this)) (resolved (member data ''device'') item)
                 (snd (deliver (onSensorData (callbacks this))
                         (map (resolved (member data ''device'')) pre) w)) of
             (None, w') \<Rightarrow>
               deliver (onSensorData (callbacks this)) (map (resolved (member data ''device'')) post) w'
           | (Some x, w') \<Rightarrow> (Some x, w')))
   \<and> (get_prop reading ''sensor'' = Inr sensor \<and> sensor \<notin> set (map Str sensor_kinds) \<longrightarrow>
        updateSensor reading pg = seen (member reading ''device'') pg
        \<and> sensor_listener reading pg =
            Outcome (fst (seen (member reading ''device'') pg)) reading
              (snd (seen (member reading ''device'') pg))
        \<and> (member reading ''device'' = Str name \<longrightarrow> thrown_by (sensor_listener reading pg) = None))"
proof -
  have dash: "updateSensor reading pg = seen (member reading ''device'') pg
        \<and> sensor_listener reading pg =
            Outcome (fst (seen (member reading ''device'') pg)) reading
              (snd (seen (member reading ''device'') pg))
        \<and> (member reading ''device'' = Str name \<longrightarrow> thrown_by (sensor_listener reading pg) = None)"
    if "get_prop reading ''sensor'' = Inr sensor" "sensor \<notin> set (map Str sensor_kinds)"
    using updateSensor_unknown [OF that, of pg] seen_string [of name pg]
    by (simp add: sensor_listener_def split_beta)
  from in_its_turn [of data pre item post qs this w] dash show ?thesis
    by blast
qed

text \<open>
  C2 as stated fails: the item of kind ZZZ produces a sensorData notification, like its
  sibling.
\<close>

theorem unknown_kind_counterexample:
  "calls (handleMessage (listening ''onSensorData'' [sensor_listener]) ''iot/sensors'' zzz_batch
      (example_page 1000000))
     = [Call ''onSensorData'' 0
          (Obj [(''sensor'', Str ''ZZZ''), (''value'', Num (Fin 1)), (''device'', Str ''PI1'')]),
        Call ''onSensorData'' 0
          (Obj [(''sensor'', Str ''DL''), (''value'', Num (Fin 1)), (''device'', Str ''PI1'')])]"
  by code_simp

lemma unknown_page:
  "sensor_listener
     (Obj [(''sensor'', Str ''ZZZ''), (''value'', Num (Fin 1)), (''device'', Str ''PI1'')])
     (example_page 1000000)
   = Outcome None
       (Obj [(''sensor'', Str ''ZZZ''), (''value'', Num (Fin 1)), (''device'', Str ''PI1'')])
       \<lparr>lastUpdate = [([Lit ''PI1''], Some 1000000), ([Lit ''PI2''], None), ([Lit ''PI3''], None)],
        document =
          [(''pi1-status'', blank\<lparr>textContent := [Lit ''Online''],
                                   className := [''badge'', ''mt-1'', ''bg-success'']\<rparr>),
           (''pi1-last-update'', blank\<lparr>textContent := [Lit ''Just now'']\<rparr>),
           (''pi4-status'', blank), (''dl-state'', blank), (''rgb-preview'', blank),
           (''person-count'', blank)],
        now = 1000000\<rparr>"
  by code_simp

theorem unknown_kind_still_notified_witness:
  "get_prop zzz_batch ''items''
     = Inr (Arr [Obj [(''sensor'', Str ''ZZZ''), (''value'', Num (Fin 1))],
                 Obj [(''sensor'', Str ''DL''), (''value'', Num (Fin 1))]] [])
   \<and> fst (deliver [sensor_listener]
        [Obj [(''sensor'', Str ''ZZZ''), (''value'', Num (Fin 1)), (''device'', Str ''PI1'')]]
        (example_page 1000000)) = None
   \<and> take 2 (first_listener_payloads
        (handleMessage (listening ''onSensorData'' [sensor_listener]) ''iot/sensors'' zzz_batch
           (example_page 1000000)))
     = [Obj [(''sensor'', Str ''ZZZ''), (''value'', Num (Fin 1)), (''device'', Str ''PI1'')],
        Obj [(''sensor'', Str ''DL''), (''value'', Num (Fin 1)), (''device'', Str ''PI1'')]]
   \<and> thrown (handleMessage (listening ''onSensorData'' [sensor_listener]) ''iot/sensors'' zzz_batch
        (example_page 1000000)) = None
   \<and> getElementById (document (world
        (handleMessage (listening ''onSensorData'' [sensor_listener]) ''iot/sensors'' zzz_batch
           (example_page 1000000)))) ''dl-state''
     = Some (blank\<lparr>textContent := [Lit ''ON''], className := [''badge'', ''mt-1'', ''bg-success'']\<rparr>)
   \<and> updateSensor
        (Obj [(''sensor'', Str ''ZZZ''), (''value'', Num (Fin 1)), (''device'', Str ''PI1'')])
        (example_page 1000000)
     = seen (Str ''PI1'') (example_page 1000000)
   \<and> thrown_by (sensor_listener
        (Obj [(''sensor'', Str ''ZZZ''), (''value'', Num (Fin 1)), (''device'', Str ''PI1'')])
        (example_page 1000000)) = None"
proof -
  let ?c = "listening ''onSensorData'' [sensor_listener]"
  let ?R = "handleMessage ?c ''iot/sensors'' zzz_batch (example_page 1000000)"
  let ?zzz = "Obj [(''sensor'', Str ''ZZZ''), (''value'', Num (Fin 1))]"
  let ?dl = "Obj [(''sensor'', Str ''DL''), (''value'', Num (Fin 1))]"
  let ?zzz' = "Obj [(''sensor'', Str ''ZZZ''), (''value'', Num (Fin 1)), (''device'', Str ''PI1'')]"
  let ?dl' = "Obj [(''sensor'', Str ''DL''), (''value'', Num (Fin 1)), (''device'', Str ''PI1'')]"
  let ?f = "resolved (Str ''PI1'')"
  let ?pg1 = "\<lparr>lastUpdate = [([Lit ''PI1''], Some 1000000), ([Lit ''PI2''], None), ([Lit ''PI3''], None)],
        document =
          [(''pi1-status'', blank\<lparr>textContent := [Lit ''Online''],
                                   className := [''badge'', ''mt-1'', ''bg-success'']\<rparr>),
           (''pi1-last-update'', blank\<lparr>textContent := [Lit ''Just now'']\<rparr>),
           (''pi4-status'', blank), (''dl-state'', blank), (''rgb-preview'', blank),
           (''person-count'', blank)],
        now = 1000000\<rparr>"
  let ?pg2 = "\<lparr>lastUpdate = [([Lit ''PI1''], Some 1000000), ([Lit ''PI2''], None), ([Lit ''PI3''], None)],
        document =
          [(''pi1-status'', blank\<lparr>textContent := [Lit ''Online''],
                                   className := [''badge'', ''mt-1'', ''bg-success'']\<rparr>),
           (''pi1-last-update'', blank\<lparr>textContent := [Lit ''Just now'']\<rparr>),
           (''pi4-status'', blank),
           (''dl-state'', blank\<lparr>textContent := [Lit ''ON''],
                                 className := [''badge'', ''mt-1'', ''bg-success'']\<rparr>),
           (''rgb-preview'', blank), (''person-count'', blank)],
        now = 1000000\<rparr>"
  have items: "get_prop zzz_batch ''items'' = Inr (Arr ([?zzz] @ ?dl # []) [])"
    by (simp add: zzz_batch_def)
  have dev: "member zzz_batch ''device'' = Str ''PI1''"
    by (simp add: zzz_batch_def member_def)
  have objs: "list_all is_object ([?zzz] @ ?dl # [])" by simp
  have res: "?f ?zzz = ?zzz'" "?f ?dl = ?dl'"
    by (simp_all add: resolved_def resolve_device_def js_or_def)
  have d0: "deliver [sensor_listener] (map ?f [?zzz]) (example_page 1000000) = (None, ?pg1)"
    by (simp add: res unknown_page)
  have d0': "deliver [sensor_listener] [?zzz'] (example_page 1000000) = (None, ?pg1)"
    by (simp add: unknown_page)
  have before: "fst (deliver [sensor_listener] (map ?f [?zzz]) (example_page 1000000)) = None"
    by (simp only: d0 fst_conv)
  have after: "sensor_listener ?dl' ?pg1 = Outcome None ?dl' ?pg2"
    by code_simp
  have inv: "invoke_all [sensor_listener] (?f ?dl) ?pg1 = (None, ?pg2)"
    by (simp add: res after)
  have ne: "[sensor_listener] \<noteq> []" by simp
  have sensor: "get_prop ?zzz' ''sensor'' = Inr (Str ''ZZZ'')" by simp
  have unknown: "Str ''ZZZ'' \<notin> set (map Str sensor_kinds)"
    by (simp add: sensor_kinds_def)
  have device: "member ?zzz' ''device'' = Str ''PI1''"
    by (simp add: member_def)
  note inst = unknown_kind_still_notified [of zzz_batch "[?zzz]" ?dl "[]" "[]" ?c
      "example_page 1000000" ?zzz' "Str ''ZZZ''" "example_page 1000000" "''PI1''",
      unfolded sensor_topic_listening callbacks_listening dev]
  from inst items objs before ne
  have first: "take (Suc (length [?zzz])) (first_listener_payloads ?R) = map ?f [?zzz] @ [?f ?dl]"
    and run: "(thrown ?R, world ?R)
        = (case invoke_all [sensor_listener] (?f ?dl)
                 (snd (deliver [sensor_listener] (map ?f [?zzz]) (example_page 1000000))) of
             (None, w') \<Rightarrow> deliver [sensor_listener] (map ?f []) w'
           | (Some x, w') \<Rightarrow> (Some x, w'))"
    by blast+
  from first have two: "take 2 (first_listener_payloads ?R) = [?zzz', ?dl']"
    by (simp add: res numeral_2_eq_2)
  have "(thrown ?R, world ?R) = (None, ?pg2)"
    unfolding run d0 snd_conv inv by simp
  then have t: "thrown ?R = None"
    and w: "getElementById (document (world ?R)) ''dl-state''
     = Some (blank\<lparr>textContent := [Lit ''ON''], className := [''badge'', ''mt-1'', ''bg-success'']\<rparr>)"
    by (simp_all add: getElementById_def)
  from inst sensor unknown device
  have u0: "updateSensor ?zzz' (example_page 1000000)
              = seen (member ?zzz' ''device'') (example_page 1000000)"
    and nt: "thrown_by (sensor_listener ?zzz' (example_page 1000000)) = None"
    by blast+
  from u0 have u: "updateSensor ?zzz' (example_page 1000000) = seen (Str ''PI1'') (example_page 1000000)"
    unfolding device .
  from items two t w u nt show ?thesis
    by (simp only: d0' fst_conv append.simps simp_thms)
qed

end
